theory Spec2Isabelle
  imports Complex_Main "HOL-Library.Monad_Syntax"
begin

section \<open>The articulated robot figure (class \<open>Robot\<close>)\<close>

text \<open>
  The class \<open>Robot\<close> builds a tree of scene-graph objects (two feet, each with a femur and a
  shoulder; the left shoulder carries body, head and eye) and keeps references to the
  movable parts in named slots. Its setters write through those references.

  Numbers are JavaScript numbers in the source. They are modelled as \<open>real\<close>: finite
  values with exact arithmetic (no rounding, no \<open>NaN\<close>, no infinities).

  Objects are shared by reference in the source: the femur stored in \<open>this.leftFemur\<close> is
  the object that is a child of the left foot. The model therefore keeps the objects in a
  store, a function from addresses to objects, and a reference is an address. \<open>new\<close>
  takes the next unused address. A slot of the figure that has not been assigned yet
  (\<open>undefined\<close> in the source) is \<open>None\<close>; reading a property of \<open>undefined\<close> raises a
  \<open>TypeError\<close> in the source, which is the result \<open>None\<close> of the setters below.
\<close>

subsection \<open>Scene-graph objects of the rendering library\<close>

type_synonym addr = nat

record vector3 =
  x :: real
  y :: real
  z :: real

text \<open>
  A texture is known by the path it is loaded from. A material is the library's
  \<open>MeshPhongMaterial\<close> over a texture, as the constructor creates it, or some other material
  that the caller passes in, known by a name.
\<close>

datatype texture = Texture string

datatype material =
    MeshPhongMaterial texture
  | Material string

text \<open>
  \<open>CylinderGeometry radiusTop radiusBottom height radialSegments heightSegments\<close> (the
  last argument is optional in the library), \<open>SphereGeometry radius widthSegments
  heightSegments\<close>, \<open>BoxGeometry width height depth\<close>; \<open>RotationX a g\<close> is the geometry
  \<open>g\<close> after \<open>g.applyMatrix(new THREE.Matrix4().makeRotationX(a))\<close>.
\<close>

datatype geometry =
    CylinderGeometry real real real nat "nat option"
  | SphereGeometry real nat nat
  | BoxGeometry real real real
  | RotationX real geometry

text \<open>
  What an object is: a plain \<open>THREE.Object3D\<close>, a \<open>THREE.Mesh\<close> with its geometry and
  material, a \<open>THREE.SpotLight\<close> (colour, intensity, distance, angle, penumbra) or a
  \<open>THREE.PerspectiveCamera\<close> (field of view, near, far; the aspect ratio comes from the
  browser window and is left out).
\<close>

datatype kind =
    Object3D
  | Mesh geometry material
  | SpotLight nat real real real real
  | PerspectiveCamera real real real

record object3d =
  kind :: kind
  position :: vector3
  rotation :: vector3
  scale :: vector3
  castShadow :: bool
  children :: "addr list"

text \<open>
  The state of a freshly constructed object: at the origin, not rotated, scale one,
  casting no shadow, without children. These are the defaults of the constructor of
  \<open>THREE.Object3D\<close>, which belongs to the rendering library and not to the repository.
\<close>

definition newObject3D :: "kind \<Rightarrow> object3d" where
  "newObject3D k =
     \<lparr> kind = k,
       position = \<lparr> x = 0, y = 0, z = 0 \<rparr>,
       rotation = \<lparr> x = 0, y = 0, z = 0 \<rparr>,
       scale = \<lparr> x = 1, y = 1, z = 1 \<rparr>,
       castShadow = False,
       children = [] \<rparr>"

subsection \<open>The figure\<close>

text \<open>The \<open>parameters\<close> object of the constructor; an absent property is \<open>None\<close>.\<close>

record parameters =
  robotHeight :: "real option"
  robotWidth :: "real option"
  materialBody :: "material option"
  materialShoulder :: "material option"
  materialFoot :: "material option"
  materialHead :: "material option"
  materialFemur :: "material option"

text \<open>
  \<open>Robot\<close> extends \<open>THREE.Object3D\<close>, so a figure has the fields of an object and its own.
  \<open>objects\<close> and \<open>nextAddr\<close> are the store of the objects the figure has created.
\<close>

record robot = object3d +
  metalTexture :: texture
  robotHeight :: real
  robotWidth :: real
  materialBody :: material
  materialShoulder :: material
  materialFoot :: material
  materialHead :: material
  materialFemur :: material
  legHeight :: real
  bodyHeight :: real
  bodyWidth :: real
  headRadius :: real
  MAX_ROBOT_ENERGY :: real
  currentEnergy :: real
  currentPoints :: real
  currentRotation :: real
  isDead :: bool
  MAX_HEAD_ANGLE :: real
  MIN_HEAD_ANGLE :: real
  MAX_BODY_ANGLE :: real
  MIN_BODY_ANGLE :: real
  MAX_LEG_STRETCH :: real
  MIN_LEG_STRETCH :: real
  rightFoot :: "addr option"
  leftFoot :: "addr option"
  rightFemur :: "addr option"
  leftFemur :: "addr option"
  rightShoulder :: "addr option"
  leftShoulder :: "addr option"
  body :: "addr option"
  head :: "addr option"
  headLight :: "addr option"
  target :: "addr option"
  eyeCamera :: "addr option"
  objects :: "addr \<Rightarrow> object3d"
  nextAddr :: addr

definition degToRad :: "real \<Rightarrow> real" where
  "degToRad degrees = degrees * pi / 180"

subsection \<open>Store operations\<close>

text \<open>\<open>new\<close>: the object is put at the next unused address, which is returned.\<close>

definition new :: "object3d \<Rightarrow> robot \<Rightarrow> addr \<times> robot" where
  "new ob this =
     (nextAddr this,
      this\<lparr> objects := (objects this)(nextAddr this := ob),
            nextAddr := Suc (nextAddr this) \<rparr>)"

text \<open>A write to a field of the object behind a reference.\<close>

definition modify :: "addr \<Rightarrow> (object3d \<Rightarrow> object3d) \<Rightarrow> robot \<Rightarrow> robot" where
  "modify a f this = this\<lparr> objects := (objects this)(a := f (objects this a)) \<rparr>"

text \<open>
  \<open>parent.add(child)\<close> of the library appends the child to the parent's children. It also
  sets the parent reference of the child, which no method of the figure reads and which is
  not represented. The constructor adds every object exactly once.
\<close>

definition add :: "addr \<Rightarrow> addr \<Rightarrow> robot \<Rightarrow> robot" where
  "add parent child this =
     modify parent (\<lambda>ob. ob\<lparr> children := children ob @ [child] \<rparr>) this"

text \<open>
  \<open>translateX\<close> and \<open>translateY\<close> of the library move an object along its own axes. The
  source calls them on the body right after its creation, when its rotation is the
  identity, so the local axes are the parent's axes and the offset is added to the
  position.
\<close>

definition translateX :: "addr \<Rightarrow> real \<Rightarrow> robot \<Rightarrow> robot" where
  "translateX a distance this =
     modify a (\<lambda>ob. ob\<lparr> position := (position ob)\<lparr> x := x (position ob) + distance \<rparr> \<rparr>) this"

definition translateY :: "addr \<Rightarrow> real \<Rightarrow> robot \<Rightarrow> robot" where
  "translateY a distance this =
     modify a (\<lambda>ob. ob\<lparr> position := (position ob)\<lparr> y := y (position ob) + distance \<rparr> \<rparr>) this"

definition set_castShadow :: "addr \<Rightarrow> bool \<Rightarrow> robot \<Rightarrow> robot" where
  "set_castShadow a b this = modify a (\<lambda>ob. ob\<lparr> castShadow := b \<rparr>) this"

definition set_position :: "addr \<Rightarrow> real \<Rightarrow> real \<Rightarrow> real \<Rightarrow> robot \<Rightarrow> robot" where
  "set_position a px py pz this =
     modify a (\<lambda>ob. ob\<lparr> position := \<lparr> x = px, y = py, z = pz \<rparr> \<rparr>) this"

definition set_position_x :: "addr \<Rightarrow> real \<Rightarrow> robot \<Rightarrow> robot" where
  "set_position_x a v this =
     modify a (\<lambda>ob. ob\<lparr> position := (position ob)\<lparr> x := v \<rparr> \<rparr>) this"

definition set_position_y :: "addr \<Rightarrow> real \<Rightarrow> robot \<Rightarrow> robot" where
  "set_position_y a v this =
     modify a (\<lambda>ob. ob\<lparr> position := (position ob)\<lparr> y := v \<rparr> \<rparr>) this"

definition set_position_z :: "addr \<Rightarrow> real \<Rightarrow> robot \<Rightarrow> robot" where
  "set_position_z a v this =
     modify a (\<lambda>ob. ob\<lparr> position := (position ob)\<lparr> z := v \<rparr> \<rparr>) this"

definition set_rotation_x :: "addr \<Rightarrow> real \<Rightarrow> robot \<Rightarrow> robot" where
  "set_rotation_x a v this =
     modify a (\<lambda>ob. ob\<lparr> rotation := (rotation ob)\<lparr> x := v \<rparr> \<rparr>) this"

definition set_rotation_y :: "addr \<Rightarrow> real \<Rightarrow> robot \<Rightarrow> robot" where
  "set_rotation_y a v this =
     modify a (\<lambda>ob. ob\<lparr> rotation := (rotation ob)\<lparr> y := v \<rparr> \<rparr>) this"

definition set_scale :: "addr \<Rightarrow> real \<Rightarrow> real \<Rightarrow> real \<Rightarrow> robot \<Rightarrow> robot" where
  "set_scale a sx sy sz this =
     modify a (\<lambda>ob. ob\<lparr> scale := \<lparr> x = sx, y = sy, z = sz \<rparr> \<rparr>) this"

text \<open>\<open>ob.geometry.applyMatrix(new THREE.Matrix4().makeRotationX(a))\<close> on a mesh.\<close>

fun applyRotationX :: "real \<Rightarrow> kind \<Rightarrow> kind" where
  "applyRotationX a (Mesh g m) = Mesh (RotationX a g) m"
| "applyRotationX a k = k"

subsection \<open>Private methods: building the parts\<close>

text \<open>
  Each method takes the figure and returns the reference to the object it created
  together with the figure as the method leaves it.
\<close>

definition createEye :: "robot \<Rightarrow> addr \<times> robot" where
  "createEye this =
     (let precision = 30;
          eyeRadius = headRadius this * 0.25;
          eyeHeight = eyeRadius / 2;
          eyeGeometry = CylinderGeometry eyeRadius eyeRadius eyeHeight precision (Some precision);
          (eye, this) = new (newObject3D (Mesh eyeGeometry (MeshPhongMaterial (metalTexture this)))) this;
          this = set_castShadow eye True this;
          this = set_position_y eye (headRadius this / 2) this;
          this = modify eye (\<lambda>ob. ob\<lparr> kind := applyRotationX (pi / 3) (kind ob) \<rparr>) this;
          this = set_position_z eye (headRadius this * 0.85) this
      in (eye, this))"

definition createHead :: "robot \<Rightarrow> addr \<times> robot" where
  "createHead this =
     (let precision = 30;
          headGeometry = SphereGeometry (headRadius this) precision precision;
          (head, this) = new (newObject3D (Mesh headGeometry (materialHead this))) this;
          this = set_castShadow head True this;
          this = set_position_y head (bodyHeight this / 2) this;
          (eye, this) = createEye this;
          this = add head eye this;
          this = this\<lparr> head := Some head \<rparr>
      in (head, this))"

definition createBody :: "robot \<Rightarrow> addr \<times> robot" where
  "createBody this =
     (let precision = 30;
          bodyRadius = bodyWidth this * 0.5;
          bodyGeometry = CylinderGeometry bodyRadius bodyRadius (bodyHeight this) precision None;
          (body, this) = new (newObject3D (Mesh bodyGeometry (materialBody this))) this;
          this = translateX body ((- bodyRadius) - (legHeight this * 0.125 / 2)) this;
          this = translateY body (- (bodyHeight this / 2) + (headRadius this / 2)
                                   + (0.25 * legHeight this)) this;
          this = set_castShadow body True this;
          this = this\<lparr> body := Some body \<rparr>;
          (head, this) = createHead this;
          this = add body head this
      in (body, this))"

definition createFemur :: "real \<Rightarrow> robot \<Rightarrow> addr \<times> robot" where
  "createFemur side this =
     (let precision = 30;
          femurLength = legHeight this * 0.75;
          femurRadius = legHeight this * 0.09375 * 0.5;
          legGeometry = CylinderGeometry femurRadius femurRadius femurLength precision None;
          (femur, this) = new (newObject3D (Mesh legGeometry (materialFemur this))) this;
          this = set_castShadow femur True this;
          this = (if side \<ge> 0 then this\<lparr> leftFemur := Some femur \<rparr>
                  else this\<lparr> rightFemur := Some femur \<rparr>)
      in (femur, this))"

definition createShoulder :: "real \<Rightarrow> robot \<Rightarrow> addr \<times> robot" where
  "createShoulder side this =
     (let shoulderDimensions = legHeight this * 0.125;
          shoulderGeometry = BoxGeometry shoulderDimensions shoulderDimensions shoulderDimensions;
          (shoulder, this) = new (newObject3D (Mesh shoulderGeometry (materialShoulder this))) this;
          this = set_castShadow shoulder True this;
          this = set_position_y shoulder ((legHeight this * 0.75 / 2) + (shoulderDimensions / 2)) this;
          this = (if side \<ge> 0 then
                    (let this = this\<lparr> leftShoulder := Some shoulder \<rparr>;
                         (body, this) = createBody this
                     in add shoulder body this)
                  else this\<lparr> rightShoulder := Some shoulder \<rparr>)
      in (shoulder, this))"

definition createFoot :: "real \<Rightarrow> robot \<Rightarrow> addr \<times> robot" where
  "createFoot side0 this =
     (let side = (if side0 \<ge> 0 then 1 else - 1);
          precision = 30;
          footHeight = legHeight this * 0.125;
          radiusTop = footHeight / 2;
          radiusBottom = legHeight this * 0.1875 / 2;
          footGeometry = CylinderGeometry radiusTop radiusBottom footHeight precision None;
          (foot, this) = new (newObject3D (Mesh footGeometry (materialFoot this))) this;
          this = set_position_y foot (legHeight this * 0.125 / 2) this;
          this = set_position_x foot (side * ((bodyWidth this / 2) + (legHeight this * 0.125 / 2))) this;
          this = set_castShadow foot True this;
          (femur, this) = createFemur side this;
          this = add foot femur this;
          (shoulder, this) = createShoulder side this;
          this = add foot shoulder this
      in (foot, this))"

subsection \<open>The constructor\<close>

text \<open>
  The figure before the parts are built: the root object as the library creates it, the
  fields set in lines 26 to 65 of the source, no slot assigned, an empty store. The
  initial content of the store is never read: every address is written by \<open>new\<close> before
  a reference to it exists.
\<close>

definition Robot_fields :: "parameters \<Rightarrow> robot" where
  "Robot_fields prm =
     (let metalTexture = Texture ''../img/metal.jpg'';
          robotHeight = (case parameters.robotHeight prm of None \<Rightarrow> 21 | Some v \<Rightarrow> v);
          robotWidth = (case parameters.robotWidth prm of None \<Rightarrow> 12.5 | Some v \<Rightarrow> v);
          legHeight = robotHeight * 0.7619;
          bodyHeight = robotHeight * 0.6667;
          MAX_ROBOT_ENERGY = 100;
          currentEnergy = MAX_ROBOT_ENERGY
      in \<lparr> kind = Object3D,
           position = \<lparr> x = 0, y = 0, z = 0 \<rparr>,
           rotation = \<lparr> x = 0, y = 0, z = 0 \<rparr>,
           scale = \<lparr> x = 1, y = 1, z = 1 \<rparr>,
           castShadow = False,
           children = [],
           metalTexture = metalTexture,
           robotHeight = robotHeight,
           robotWidth = robotWidth,
           materialBody = (case parameters.materialBody prm of
                             None \<Rightarrow> MeshPhongMaterial metalTexture | Some m \<Rightarrow> m),
           materialShoulder = (case parameters.materialShoulder prm of
                             None \<Rightarrow> MeshPhongMaterial metalTexture | Some m \<Rightarrow> m),
           materialFoot = (case parameters.materialFoot prm of
                             None \<Rightarrow> MeshPhongMaterial metalTexture | Some m \<Rightarrow> m),
           materialHead = (case parameters.materialHead prm of
                             None \<Rightarrow> MeshPhongMaterial metalTexture | Some m \<Rightarrow> m),
           materialFemur = (case parameters.materialFemur prm of
                             None \<Rightarrow> MeshPhongMaterial metalTexture | Some m \<Rightarrow> m),
           legHeight = legHeight,
           bodyHeight = bodyHeight,
           bodyWidth = bodyHeight * 0.5,
           headRadius = robotHeight * 0.1428,
           MAX_ROBOT_ENERGY = MAX_ROBOT_ENERGY,
           currentEnergy = currentEnergy,
           currentPoints = 0,
           currentRotation = 0,
           isDead = (if currentEnergy < 0 then True else False),
           MAX_HEAD_ANGLE = 80,
           MIN_HEAD_ANGLE = - 80,
           MAX_BODY_ANGLE = 30,
           MIN_BODY_ANGLE = - 45,
           MAX_LEG_STRETCH = 1.2,
           MIN_LEG_STRETCH = 1,
           rightFoot = None,
           leftFoot = None,
           rightFemur = None,
           leftFemur = None,
           rightShoulder = None,
           leftShoulder = None,
           body = None,
           head = None,
           headLight = None,
           target = None,
           eyeCamera = None,
           objects = (\<lambda>a. newObject3D Object3D),
           nextAddr = 0 \<rparr>)"

text \<open>
  The rest of the constructor (lines 72 to 103). The link from the light to its target,
  the size of the shadow map and the orientation that \<open>lookAt\<close> gives the camera are
  state of the library's light and camera and are not represented.
\<close>

definition Robot :: "parameters \<Rightarrow> robot" where
  "Robot prm =
     (let this = Robot_fields prm;
          (rfoot, this) = createFoot (- 1) this;
          this = this\<lparr> rightFoot := Some rfoot \<rparr>;
          (lfoot, this) = createFoot 1 this;
          this = this\<lparr> leftFoot := Some lfoot \<rparr>;
          this = this\<lparr> children := children this @ [rfoot] \<rparr>;
          this = this\<lparr> children := children this @ [lfoot] \<rparr>;
          (light, this) = new (newObject3D (SpotLight 0xFFFFFF 3 100 (degToRad 30) 0.5)) this;
          this = this\<lparr> headLight := Some light \<rparr>;
          this = set_position light 0 (robotHeight this + 1) 7 this;
          this = set_castShadow light True this;
          (tgt, this) = new (newObject3D Object3D) this;
          this = this\<lparr> target := Some tgt \<rparr>;
          this = set_position tgt 0 0 25 this;
          this = this\<lparr> children := children this @ [light] \<rparr>;
          this = this\<lparr> children := children this @ [tgt] \<rparr>;
          (camera, this) = new (newObject3D (PerspectiveCamera 45 0.1 1000)) this;
          this = this\<lparr> eyeCamera := Some camera \<rparr>;
          this = set_position camera 0 (robotHeight this - 1) 3 this;
          this = this\<lparr> children := children this @ [camera] \<rparr>
      in this)"

text \<open>
  The constructor reads the properties of its argument without a guard (line 30), so a
  call without an argument raises a \<open>TypeError\<close> before the figure exists. \<open>Robot prm\<close>
  above is the call with a parameters object; the call as such is:
\<close>

definition new_Robot :: "parameters option \<Rightarrow> robot option" where
  "new_Robot arg = (case arg of None \<Rightarrow> None | Some prm \<Rightarrow> Some (Robot prm))"

subsection \<open>Set methods\<close>

text \<open>
  The three motion setters read a slot of the figure and write to the object behind it.
  The result is \<open>None\<close> where the source raises a \<open>TypeError\<close> because the slot is
  \<open>undefined\<close>; the state in which the exception leaves the figure is not represented.
\<close>

definition setHeadRotation :: "real \<Rightarrow> robot \<Rightarrow> robot option" where
  "setHeadRotation headRotation this =
     (if \<not> isDead this then
        (let rotation' = headRotation;
             rotation' = (if rotation' > MAX_HEAD_ANGLE this then MAX_HEAD_ANGLE this
                          else if rotation' < MIN_HEAD_ANGLE this then MIN_HEAD_ANGLE this
                          else rotation');
             rotation' = degToRad rotation'
         in do {
              h \<leftarrow> head this;
              Some (set_rotation_y h rotation' this)
            })
      else Some this)"

definition setBodyRotation :: "real \<Rightarrow> robot \<Rightarrow> robot option" where
  "setBodyRotation bodyRotation this =
     (if \<not> isDead this then
        (let rotation' = bodyRotation;
             rotation' = (if rotation' > MAX_BODY_ANGLE this then MAX_BODY_ANGLE this
                          else if rotation' < MIN_BODY_ANGLE this then MIN_BODY_ANGLE this
                          else rotation');
             rotation' = degToRad rotation'
         in do {
              b \<leftarrow> body this;
              Some (set_rotation_x b rotation' this)
            })
      else Some this)"

definition setLegsScale :: "real \<Rightarrow> robot \<Rightarrow> robot option" where
  "setLegsScale extraLength this =
     (if \<not> isDead this then
        (let stretch = extraLength;
             stretch = (if stretch > MAX_LEG_STRETCH this then MAX_LEG_STRETCH this
                        else if stretch < MIN_LEG_STRETCH this then MIN_LEG_STRETCH this
                        else stretch)
         in do {
              rf \<leftarrow> rightFemur this;
              let this = set_scale rf 1 stretch 1 this;
              rf \<leftarrow> rightFemur this;
              let this = set_position_y rf (legHeight this * 0.75 / 2) this;
              lf \<leftarrow> leftFemur this;
              let this = set_scale lf 1 stretch 1 this;
              lf \<leftarrow> leftFemur this;
              let this = set_position_y lf (legHeight this * 0.75 / 2) this;
              rs \<leftarrow> rightShoulder this;
              let this = set_position_y rs ((legHeight this * 0.75) * stretch) this;
              ls \<leftarrow> leftShoulder this;
              let this = set_position_y ls ((legHeight this * 0.75) * stretch) this;
              Some this
            })
      else Some this)"

text \<open>The three methods on energy and points read and write fields of the figure only.\<close>

definition substractEnergy :: "real \<Rightarrow> robot \<Rightarrow> robot" where
  "substractEnergy damage this =
     (if \<not> isDead this then
        (let this = this\<lparr> currentEnergy := currentEnergy this - damage \<rparr>
         in if currentEnergy this \<le> 0 then this\<lparr> isDead := True \<rparr> else this)
      else this)"

definition addEnergy :: "real \<Rightarrow> robot \<Rightarrow> robot" where
  "addEnergy energy this =
     (if \<not> isDead this then
        this\<lparr> currentEnergy :=
                (if currentEnergy this + energy > MAX_ROBOT_ENERGY this
                 then MAX_ROBOT_ENERGY this else currentEnergy this + energy) \<rparr>
      else this)"

definition addPoints :: "real \<Rightarrow> robot \<Rightarrow> robot" where
  "addPoints points this =
     (if \<not> isDead this then this\<lparr> currentPoints := currentPoints this + points \<rparr>
      else this)"

subsection \<open>Sequences of calls\<close>

text \<open>
  A call of one of the six public methods, and the effect of a sequence of calls on a
  figure. A sequence stops at the first call that raises.
\<close>

datatype call =
    SetHeadRotation real
  | SetBodyRotation real
  | SetLegsScale real
  | SubstractEnergy real
  | AddEnergy real
  | AddPoints real

fun exec :: "call \<Rightarrow> robot \<Rightarrow> robot option" where
  "exec (SetHeadRotation v) this = setHeadRotation v this"
| "exec (SetBodyRotation v) this = setBodyRotation v this"
| "exec (SetLegsScale v) this = setLegsScale v this"
| "exec (SubstractEnergy v) this = Some (substractEnergy v this)"
| "exec (AddEnergy v) this = Some (addEnergy v this)"
| "exec (AddPoints v) this = Some (addPoints v this)"

fun run :: "call list \<Rightarrow> robot \<Rightarrow> robot option" where
  "run [] this = Some this"
| "run (c # cs) this = (case exec c this of None \<Rightarrow> None | Some this' \<Rightarrow> run cs this')"

section \<open>Auxiliary definitions for the proofs\<close>

subsection \<open>The objects as the constructor leaves them\<close>

text \<open>
  The objects that the private methods build, written as values: the arguments are the
  fields of the figure that the method reads and the children that end up attached.
  The lemmas of the next section show that the methods build exactly these.
\<close>

definition eyeMesh :: "real \<Rightarrow> texture \<Rightarrow> object3d" where
  "eyeMesh hr tex =
     \<lparr> kind = Mesh (RotationX (pi / 3)
                (CylinderGeometry (hr * 0.25) (hr * 0.25) (hr * 0.25 / 2) 30 (Some 30)))
              (MeshPhongMaterial tex),
       position = \<lparr> x = 0, y = hr / 2, z = hr * 0.85 \<rparr>,
       rotation = \<lparr> x = 0, y = 0, z = 0 \<rparr>,
       scale = \<lparr> x = 1, y = 1, z = 1 \<rparr>,
       castShadow = True,
       children = [] \<rparr>"

definition headMesh :: "real \<Rightarrow> real \<Rightarrow> material \<Rightarrow> addr list \<Rightarrow> object3d" where
  "headMesh hr bh m cs =
     \<lparr> kind = Mesh (SphereGeometry hr 30 30) m,
       position = \<lparr> x = 0, y = bh / 2, z = 0 \<rparr>,
       rotation = \<lparr> x = 0, y = 0, z = 0 \<rparr>,
       scale = \<lparr> x = 1, y = 1, z = 1 \<rparr>,
       castShadow = True,
       children = cs \<rparr>"

definition bodyMesh :: "real \<Rightarrow> real \<Rightarrow> real \<Rightarrow> real \<Rightarrow> material \<Rightarrow> addr list \<Rightarrow> object3d" where
  "bodyMesh bw bh lh hr m cs =
     \<lparr> kind = Mesh (CylinderGeometry (bw * 0.5) (bw * 0.5) bh 30 None) m,
       position = \<lparr> x = (- (bw * 0.5)) - (lh * 0.125 / 2),
                    y = - (bh / 2) + (hr / 2) + (0.25 * lh), z = 0 \<rparr>,
       rotation = \<lparr> x = 0, y = 0, z = 0 \<rparr>,
       scale = \<lparr> x = 1, y = 1, z = 1 \<rparr>,
       castShadow = True,
       children = cs \<rparr>"

definition femurMesh :: "real \<Rightarrow> material \<Rightarrow> object3d" where
  "femurMesh lh m =
     \<lparr> kind = Mesh (CylinderGeometry (lh * 0.09375 * 0.5) (lh * 0.09375 * 0.5) (lh * 0.75) 30 None) m,
       position = \<lparr> x = 0, y = 0, z = 0 \<rparr>,
       rotation = \<lparr> x = 0, y = 0, z = 0 \<rparr>,
       scale = \<lparr> x = 1, y = 1, z = 1 \<rparr>,
       castShadow = True,
       children = [] \<rparr>"

definition shoulderMesh :: "real \<Rightarrow> material \<Rightarrow> addr list \<Rightarrow> object3d" where
  "shoulderMesh lh m cs =
     \<lparr> kind = Mesh (BoxGeometry (lh * 0.125) (lh * 0.125) (lh * 0.125)) m,
       position = \<lparr> x = 0, y = (lh * 0.75 / 2) + (lh * 0.125 / 2), z = 0 \<rparr>,
       rotation = \<lparr> x = 0, y = 0, z = 0 \<rparr>,
       scale = \<lparr> x = 1, y = 1, z = 1 \<rparr>,
       castShadow = True,
       children = cs \<rparr>"

definition footMesh :: "real \<Rightarrow> real \<Rightarrow> real \<Rightarrow> material \<Rightarrow> addr list \<Rightarrow> object3d" where
  "footMesh side lh bw m cs =
     \<lparr> kind = Mesh (CylinderGeometry (lh * 0.125 / 2) (lh * 0.1875 / 2) (lh * 0.125) 30 None) m,
       position = \<lparr> x = side * ((bw / 2) + (lh * 0.125 / 2)), y = lh * 0.125 / 2, z = 0 \<rparr>,
       rotation = \<lparr> x = 0, y = 0, z = 0 \<rparr>,
       scale = \<lparr> x = 1, y = 1, z = 1 \<rparr>,
       castShadow = True,
       children = cs \<rparr>"

definition headLightObject :: "real \<Rightarrow> object3d" where
  "headLightObject rh =
     \<lparr> kind = SpotLight 0xFFFFFF 3 100 (degToRad 30) 0.5,
       position = \<lparr> x = 0, y = rh + 1, z = 7 \<rparr>,
       rotation = \<lparr> x = 0, y = 0, z = 0 \<rparr>,
       scale = \<lparr> x = 1, y = 1, z = 1 \<rparr>,
       castShadow = True,
       children = [] \<rparr>"

definition targetObject :: object3d where
  "targetObject =
     \<lparr> kind = Object3D,
       position = \<lparr> x = 0, y = 0, z = 25 \<rparr>,
       rotation = \<lparr> x = 0, y = 0, z = 0 \<rparr>,
       scale = \<lparr> x = 1, y = 1, z = 1 \<rparr>,
       castShadow = False,
       children = [] \<rparr>"

definition eyeCameraObject :: "real \<Rightarrow> object3d" where
  "eyeCameraObject rh =
     \<lparr> kind = PerspectiveCamera 45 0.1 1000,
       position = \<lparr> x = 0, y = rh - 1, z = 3 \<rparr>,
       rotation = \<lparr> x = 0, y = 0, z = 0 \<rparr>,
       scale = \<lparr> x = 1, y = 1, z = 1 \<rparr>,
       castShadow = False,
       children = [] \<rparr>"

subsection \<open>Parameters, reachable figures, call sequences\<close>

text \<open>The call \<open>new Robot({})\<close>: every property of the parameters object is absent.\<close>

definition no_parameters :: parameters where
  "no_parameters =
     \<lparr> parameters.robotHeight = None, robotWidth = None, materialBody = None,
       materialShoulder = None, materialFoot = None, materialHead = None,
       materialFemur = None \<rparr>"

text \<open>
  What every figure reached from the constructor satisfies: the six slots that the setters
  read hold the references assigned at construction, and the limits are the constants of
  the constructor.
\<close>

definition assembled :: "robot \<Rightarrow> bool" where
  "assembled r \<longleftrightarrow>
     rightFemur r = Some 1 \<and> leftFemur r = Some 4 \<and>
     rightShoulder r = Some 2 \<and> leftShoulder r = Some 5 \<and>
     body r = Some 6 \<and> head r = Some 7 \<and>
     MAX_ROBOT_ENERGY r = 100 \<and>
     MAX_HEAD_ANGLE r = 80 \<and> MIN_HEAD_ANGLE r = - 80 \<and>
     MAX_BODY_ANGLE r = 30 \<and> MIN_BODY_ANGLE r = - 45 \<and>
     MAX_LEG_STRETCH r = 1.2 \<and> MIN_LEG_STRETCH r = 1"

text \<open>The six writes of \<open>setLegsScale\<close>, in the order of the source.\<close>

definition legs_written :: "real \<Rightarrow> addr \<Rightarrow> addr \<Rightarrow> addr \<Rightarrow> addr \<Rightarrow> robot \<Rightarrow> robot" where
  "legs_written stretch rf lf rs ls r =
     set_position_y ls ((legHeight r * 0.75) * stretch)
      (set_position_y rs ((legHeight r * 0.75) * stretch)
        (set_position_y lf (legHeight r * 0.75 / 2)
          (set_scale lf 1 stretch 1
            (set_position_y rf (legHeight r * 0.75 / 2)
              (set_scale rf 1 stretch 1 r)))))"

subsection \<open>Kinds of calls\<close>

text \<open>
  Which method a call is, and whether the amount it passes is non-negative; used to state
  for which call sequences a bound holds.
\<close>

fun motion_call :: "call \<Rightarrow> bool" where
  "motion_call (SetHeadRotation v) = True"
| "motion_call (SetBodyRotation v) = True"
| "motion_call (SetLegsScale v) = True"
| "motion_call c = False"

fun legs_call :: "call \<Rightarrow> bool" where
  "legs_call (SetLegsScale v) = True"
| "legs_call c = False"


fun points_call :: "call \<Rightarrow> bool" where
  "points_call (AddPoints v) = True"
| "points_call c = False"



fun nonneg_points :: "call \<Rightarrow> bool" where
  "nonneg_points (AddPoints v) = (0 \<le> v)"
| "nonneg_points c = True"

section \<open>What the constructor builds\<close>

lemmas store_defs = new_def modify_def add_def translateX_def translateY_def set_castShadow_def
  set_position_def set_position_x_def set_position_y_def set_position_z_def set_rotation_x_def
  set_rotation_y_def set_scale_def newObject3D_def

lemma createEye_result:
  "createEye this =
     (nextAddr this,
      this\<lparr> nextAddr := Suc (nextAddr this),
            objects := (objects this)(nextAddr this := eyeMesh (headRadius this) (metalTexture this)) \<rparr>)"
  by (simp add: createEye_def store_defs Let_def eyeMesh_def)

lemma createHead_result:
  "createHead this =
     (nextAddr this,
      this\<lparr> nextAddr := Suc (Suc (nextAddr this)),
            objects := (objects this)
              (Suc (nextAddr this) := eyeMesh (headRadius this) (metalTexture this),
               nextAddr this := headMesh (headRadius this) (bodyHeight this) (robot.materialHead this)
                                  [Suc (nextAddr this)]),
            head := Some (nextAddr this) \<rparr>)"
  by (simp add: createHead_def createEye_result store_defs Let_def headMesh_def)

lemma createBody_result:
  "createBody this =
     (nextAddr this,
      this\<lparr> body := Some (nextAddr this),
            nextAddr := Suc (Suc (Suc (nextAddr this))),
            head := Some (Suc (nextAddr this)),
            objects := (objects this)
              (Suc (Suc (nextAddr this)) := eyeMesh (headRadius this) (metalTexture this),
               Suc (nextAddr this) := headMesh (headRadius this) (bodyHeight this)
                                        (robot.materialHead this) [Suc (Suc (nextAddr this))],
               nextAddr this := bodyMesh (bodyWidth this) (bodyHeight this) (legHeight this)
                                  (headRadius this) (robot.materialBody this) [Suc (nextAddr this)]) \<rparr>)"
  by (simp add: createBody_def createHead_result store_defs Let_def bodyMesh_def headMesh_def)

lemma createFemur_result:
  "createFemur side this =
     (nextAddr this,
      (if side \<ge> 0 then this\<lparr> leftFemur := Some (nextAddr this) \<rparr>
       else this\<lparr> rightFemur := Some (nextAddr this) \<rparr>)
      \<lparr> nextAddr := Suc (nextAddr this),
        objects := (objects this)(nextAddr this := femurMesh (legHeight this) (robot.materialFemur this)) \<rparr>)"
  by (simp add: createFemur_def store_defs Let_def femurMesh_def)

lemma createShoulder_right:
  "side < 0 \<Longrightarrow> createShoulder side this =
     (nextAddr this,
      this\<lparr> rightShoulder := Some (nextAddr this),
            nextAddr := Suc (nextAddr this),
            objects := (objects this)
              (nextAddr this := shoulderMesh (legHeight this) (robot.materialShoulder this) []) \<rparr>)"
  by (simp add: createShoulder_def store_defs Let_def shoulderMesh_def)

lemma createShoulder_left:
  "side \<ge> 0 \<Longrightarrow> createShoulder side this =
     (nextAddr this,
      this\<lparr> leftShoulder := Some (nextAddr this),
            body := Some (Suc (nextAddr this)),
            head := Some (Suc (Suc (nextAddr this))),
            nextAddr := Suc (Suc (Suc (Suc (nextAddr this)))),
            objects := (objects this)
              (Suc (Suc (Suc (nextAddr this))) := eyeMesh (headRadius this) (metalTexture this),
               Suc (Suc (nextAddr this)) := headMesh (headRadius this) (bodyHeight this)
                                        (robot.materialHead this) [Suc (Suc (Suc (nextAddr this)))],
               Suc (nextAddr this) := bodyMesh (bodyWidth this) (bodyHeight this) (legHeight this)
                                  (headRadius this) (robot.materialBody this) [Suc (Suc (nextAddr this))],
               nextAddr this := shoulderMesh (legHeight this) (robot.materialShoulder this)
                                  [Suc (nextAddr this)]) \<rparr>)"
  by (simp add: createShoulder_def createBody_result store_defs Let_def shoulderMesh_def)

lemma createFoot_right:
  "side < 0 \<Longrightarrow> createFoot side this =
     (nextAddr this,
      this\<lparr> rightFemur := Some (Suc (nextAddr this)),
            rightShoulder := Some (Suc (Suc (nextAddr this))),
            nextAddr := Suc (Suc (Suc (nextAddr this))),
            objects := (objects this)
              (Suc (nextAddr this) := femurMesh (legHeight this) (robot.materialFemur this),
               Suc (Suc (nextAddr this)) :=
                 shoulderMesh (legHeight this) (robot.materialShoulder this) [],
               nextAddr this :=
                 footMesh (- 1) (legHeight this) (bodyWidth this) (robot.materialFoot this)
                   [Suc (nextAddr this), Suc (Suc (nextAddr this))]) \<rparr>)"
  by (simp add: createFoot_def createFemur_result createShoulder_right store_defs Let_def footMesh_def)

lemma createFoot_left:
  "side \<ge> 0 \<Longrightarrow> createFoot side this =
     (nextAddr this,
      this\<lparr> leftFemur := Some (Suc (nextAddr this)),
            leftShoulder := Some (Suc (Suc (nextAddr this))),
            body := Some (Suc (Suc (Suc (nextAddr this)))),
            head := Some (Suc (Suc (Suc (Suc (nextAddr this))))),
            nextAddr := Suc (Suc (Suc (Suc (Suc (Suc (nextAddr this)))))),
            objects := (objects this)
              (Suc (nextAddr this) := femurMesh (legHeight this) (robot.materialFemur this),
               Suc (Suc (Suc (Suc (Suc (nextAddr this))))) :=
                 eyeMesh (headRadius this) (metalTexture this),
               Suc (Suc (Suc (Suc (nextAddr this)))) :=
                 headMesh (headRadius this) (bodyHeight this) (robot.materialHead this)
                   [Suc (Suc (Suc (Suc (Suc (nextAddr this)))))],
               Suc (Suc (Suc (nextAddr this))) :=
                 bodyMesh (bodyWidth this) (bodyHeight this) (legHeight this)
                   (headRadius this) (robot.materialBody this)
                   [Suc (Suc (Suc (Suc (nextAddr this))))],
               Suc (Suc (nextAddr this)) :=
                 shoulderMesh (legHeight this) (robot.materialShoulder this)
                   [Suc (Suc (Suc (nextAddr this)))],
               nextAddr this :=
                 footMesh 1 (legHeight this) (bodyWidth this) (robot.materialFoot this)
                   [Suc (nextAddr this), Suc (Suc (nextAddr this))]) \<rparr>)"
  by (simp add: createFoot_def createFemur_result createShoulder_left store_defs Let_def footMesh_def)

lemma addr_numerals:
  "(2::nat) = Suc (Suc 0)"
  "(3::nat) = Suc (Suc (Suc 0))"
  "(4::nat) = Suc (Suc (Suc (Suc 0)))"
  "(5::nat) = Suc (Suc (Suc (Suc (Suc 0))))"
  "(6::nat) = Suc (Suc (Suc (Suc (Suc (Suc 0)))))"
  "(7::nat) = Suc (Suc (Suc (Suc (Suc (Suc (Suc 0))))))"
  "(8::nat) = Suc (Suc (Suc (Suc (Suc (Suc (Suc (Suc 0)))))))"
  "(9::nat) = Suc (Suc (Suc (Suc (Suc (Suc (Suc (Suc (Suc 0))))))))"
  "(10::nat) = Suc (Suc (Suc (Suc (Suc (Suc (Suc (Suc (Suc (Suc 0)))))))))"
  "(11::nat) = Suc (Suc (Suc (Suc (Suc (Suc (Suc (Suc (Suc (Suc (Suc 0))))))))))"
  "(12::nat) = Suc (Suc (Suc (Suc (Suc (Suc (Suc (Suc (Suc (Suc (Suc (Suc 0)))))))))))"
  by (simp_all add: numeral_eq_Suc)

lemma Robot_fields_simps:
  "nextAddr (Robot_fields prm) = 0"
  "children (Robot_fields prm) = []"
  by (simp_all add: Robot_fields_def Let_def)

lemma Robot_result:
  "Robot prm =
     (let this = Robot_fields prm in
      this\<lparr> children := [0, 3, 9, 10, 11],
            rightFoot := Some 0, rightFemur := Some 1, rightShoulder := Some 2,
            leftFoot := Some 3, leftFemur := Some 4, leftShoulder := Some 5,
            body := Some 6, head := Some 7,
            headLight := Some 9, target := Some 10, eyeCamera := Some 11,
            nextAddr := 12,
            objects := (objects this)
              (1 := femurMesh (legHeight this) (robot.materialFemur this),
               2 := shoulderMesh (legHeight this) (robot.materialShoulder this) [],
               0 := footMesh (- 1) (legHeight this) (bodyWidth this) (robot.materialFoot this) [1, 2],
               4 := femurMesh (legHeight this) (robot.materialFemur this),
               8 := eyeMesh (headRadius this) (metalTexture this),
               7 := headMesh (headRadius this) (bodyHeight this) (robot.materialHead this) [8],
               6 := bodyMesh (bodyWidth this) (bodyHeight this) (legHeight this)
                      (headRadius this) (robot.materialBody this) [7],
               5 := shoulderMesh (legHeight this) (robot.materialShoulder this) [6],
               3 := footMesh 1 (legHeight this) (bodyWidth this) (robot.materialFoot this) [4, 5],
               9 := headLightObject (robot.robotHeight this),
               10 := targetObject,
               11 := eyeCameraObject (robot.robotHeight this)) \<rparr>)"
  by (simp add: Robot_def createFoot_right createFoot_left store_defs Let_def Robot_fields_simps
        headLightObject_def targetObject_def eyeCameraObject_def addr_numerals)

lemma Robot_fields_limits:
  "MAX_ROBOT_ENERGY (Robot_fields prm) = 100"
  "MAX_HEAD_ANGLE (Robot_fields prm) = 80"
  "MIN_HEAD_ANGLE (Robot_fields prm) = - 80"
  "MAX_BODY_ANGLE (Robot_fields prm) = 30"
  "MIN_BODY_ANGLE (Robot_fields prm) = - 45"
  "MAX_LEG_STRETCH (Robot_fields prm) = 1.2"
  "MIN_LEG_STRETCH (Robot_fields prm) = 1"
  "currentEnergy (Robot_fields prm) = 100"
  "currentPoints (Robot_fields prm) = 0"
  "isDead (Robot_fields prm) = False"
  by (simp_all add: Robot_fields_def Let_def)

lemma Robot_fields_dims:
  "robot.robotHeight (Robot_fields prm) = (case parameters.robotHeight prm of None \<Rightarrow> 21 | Some v \<Rightarrow> v)"
  "robot.robotWidth (Robot_fields prm) = (case parameters.robotWidth prm of None \<Rightarrow> 12.5 | Some v \<Rightarrow> v)"
  "legHeight (Robot_fields prm) = robot.robotHeight (Robot_fields prm) * 0.7619"
  "bodyHeight (Robot_fields prm) = robot.robotHeight (Robot_fields prm) * 0.6667"
  "bodyWidth (Robot_fields prm) = bodyHeight (Robot_fields prm) * 0.5"
  "headRadius (Robot_fields prm) = robot.robotHeight (Robot_fields prm) * 0.1428"
  by (simp_all add: Robot_fields_def Let_def)

lemma Robot_slots:
  "rightFoot (Robot prm) = Some 0" "rightFemur (Robot prm) = Some 1"
  "rightShoulder (Robot prm) = Some 2" "leftFoot (Robot prm) = Some 3"
  "leftFemur (Robot prm) = Some 4" "leftShoulder (Robot prm) = Some 5"
  "body (Robot prm) = Some 6" "head (Robot prm) = Some 7"
  "nextAddr (Robot prm) = 12" "children (Robot prm) = [0, 3, 9, 10, 11]"
  by (simp_all add: Robot_result Let_def)

lemma Robot_more_slots:
  "headLight (Robot prm) = Some 9" "target (Robot prm) = Some 10" "eyeCamera (Robot prm) = Some 11"
  by (simp_all add: Robot_result Let_def)

lemma Robot_scalars:
  "robot.robotHeight (Robot prm) = robot.robotHeight (Robot_fields prm)"
  "robot.robotWidth (Robot prm) = robot.robotWidth (Robot_fields prm)"
  "legHeight (Robot prm) = legHeight (Robot_fields prm)"
  "bodyHeight (Robot prm) = bodyHeight (Robot_fields prm)"
  "bodyWidth (Robot prm) = bodyWidth (Robot_fields prm)"
  "headRadius (Robot prm) = headRadius (Robot_fields prm)"
  "robot.materialFoot (Robot prm) = robot.materialFoot (Robot_fields prm)"
  "robot.materialFemur (Robot prm) = robot.materialFemur (Robot_fields prm)"
  "robot.materialShoulder (Robot prm) = robot.materialShoulder (Robot_fields prm)"
  "robot.materialBody (Robot prm) = robot.materialBody (Robot_fields prm)"
  "robot.materialHead (Robot prm) = robot.materialHead (Robot_fields prm)"
  "metalTexture (Robot prm) = metalTexture (Robot_fields prm)"
  "MAX_ROBOT_ENERGY (Robot prm) = MAX_ROBOT_ENERGY (Robot_fields prm)"
  "MAX_HEAD_ANGLE (Robot prm) = MAX_HEAD_ANGLE (Robot_fields prm)"
  "MIN_HEAD_ANGLE (Robot prm) = MIN_HEAD_ANGLE (Robot_fields prm)"
  "MAX_BODY_ANGLE (Robot prm) = MAX_BODY_ANGLE (Robot_fields prm)"
  "MIN_BODY_ANGLE (Robot prm) = MIN_BODY_ANGLE (Robot_fields prm)"
  "MAX_LEG_STRETCH (Robot prm) = MAX_LEG_STRETCH (Robot_fields prm)"
  "MIN_LEG_STRETCH (Robot prm) = MIN_LEG_STRETCH (Robot_fields prm)"
  "currentEnergy (Robot prm) = currentEnergy (Robot_fields prm)"
  "currentPoints (Robot prm) = currentPoints (Robot_fields prm)"
  "isDead (Robot prm) = isDead (Robot_fields prm)"
  by (simp_all add: Robot_result Let_def)

lemma Robot_objects:
  "objects (Robot prm) 0 = footMesh (- 1) (legHeight (Robot prm)) (bodyWidth (Robot prm))
                             (robot.materialFoot (Robot prm)) [1, 2]"
  "objects (Robot prm) (Suc 0) = femurMesh (legHeight (Robot prm)) (robot.materialFemur (Robot prm))"
  "objects (Robot prm) 2 = shoulderMesh (legHeight (Robot prm)) (robot.materialShoulder (Robot prm)) []"
  "objects (Robot prm) 3 = footMesh 1 (legHeight (Robot prm)) (bodyWidth (Robot prm))
                             (robot.materialFoot (Robot prm)) [4, 5]"
  "objects (Robot prm) 4 = femurMesh (legHeight (Robot prm)) (robot.materialFemur (Robot prm))"
  "objects (Robot prm) 5 = shoulderMesh (legHeight (Robot prm)) (robot.materialShoulder (Robot prm)) [6]"
  "objects (Robot prm) 6 = bodyMesh (bodyWidth (Robot prm)) (bodyHeight (Robot prm))
                             (legHeight (Robot prm)) (headRadius (Robot prm))
                             (robot.materialBody (Robot prm)) [7]"
  "objects (Robot prm) 7 = headMesh (headRadius (Robot prm)) (bodyHeight (Robot prm))
                             (robot.materialHead (Robot prm)) [8]"
  "objects (Robot prm) 8 = eyeMesh (headRadius (Robot prm)) (metalTexture (Robot prm))"
  "objects (Robot prm) 9 = headLightObject (robot.robotHeight (Robot prm))"
  "objects (Robot prm) 10 = targetObject"
  "objects (Robot prm) 11 = eyeCameraObject (robot.robotHeight (Robot prm))"
  by (simp_all add: Robot_result Let_def)

lemma assembled_Robot: "assembled (Robot prm)"
  by (simp add: assembled_def Robot_slots Robot_scalars Robot_fields_limits)

section \<open>The setters on a figure\<close>

lemmas setter_defs = setHeadRotation_def setBodyRotation_def setLegsScale_def
lemmas write_defs = modify_def set_rotation_x_def set_rotation_y_def set_scale_def set_position_y_def

lemma assembled_exec:
  "assembled r \<Longrightarrow> \<exists>r'. exec c r = Some r' \<and> assembled r'"
  by (cases c) (auto simp: assembled_def setter_defs write_defs Let_def
       substractEnergy_def addEnergy_def addPoints_def)

lemma assembled_run:
  "assembled r \<Longrightarrow> \<exists>r'. run cs r = Some r' \<and> assembled r'"
proof (induction cs arbitrary: r)
  case Nil
  then show ?case by simp
next
  case (Cons c cs)
  from assembled_exec [OF Cons.prems, of c] obtain r1
    where "exec c r = Some r1" "assembled r1" by blast
  with Cons.IH [of r1] show ?case by simp
qed

lemma reachable_assembled:
  "run cs (Robot prm) = Some r \<Longrightarrow> assembled r"
  using assembled_run [OF assembled_Robot, of cs prm] by simp

lemma dead_exec: "isDead r \<Longrightarrow> exec c r = Some r"
  by (cases c) (simp_all add: setter_defs substractEnergy_def addEnergy_def addPoints_def)

lemma dead_run: "isDead r \<Longrightarrow> run cs r = Some r"
  by (induction cs) (simp_all add: dead_exec)

lemma substractEnergy_dead:
  "currentEnergy (substractEnergy damage r) \<le> 0 \<Longrightarrow> isDead (substractEnergy damage r)"
  by (simp add: substractEnergy_def Let_def split: if_splits)

lemma objects_modify:
  "objects (modify a f r) b = (if b = a then f (objects r b) else objects r b)"
  by (simp add: modify_def)

lemma modify_fields:
  "isDead (modify a f r) = isDead r"
  "legHeight (modify a f r) = legHeight r"
  "rightFemur (modify a f r) = rightFemur r"
  "leftFemur (modify a f r) = leftFemur r"
  "rightShoulder (modify a f r) = rightShoulder r"
  "leftShoulder (modify a f r) = leftShoulder r"
  "body (modify a f r) = body r"
  "head (modify a f r) = head r"
  "MAX_LEG_STRETCH (modify a f r) = MAX_LEG_STRETCH r"
  "MIN_LEG_STRETCH (modify a f r) = MIN_LEG_STRETCH r"
  by (simp_all add: modify_def)

lemma modify_frame:
  "(modify a f r)\<lparr> objects := h \<rparr> = r\<lparr> objects := h \<rparr>"
  by (simp add: modify_def)

lemma robot_eqI:
  "r1\<lparr> objects := objects r2 \<rparr> = r2 \<Longrightarrow> (\<And>b. objects r1 b = objects r2 b) \<Longrightarrow> r1 = r2"
proof -
  assume f: "r1\<lparr> objects := objects r2 \<rparr> = r2" and o: "\<And>b. objects r1 b = objects r2 b"
  from o have "objects r1 = objects r2" by (simp add: fun_eq_iff)
  then have "r1\<lparr> objects := objects r2 \<rparr> = r1" by simp
  with f show "r1 = r2" by simp
qed

lemmas legs_write_defs = set_scale_def set_position_y_def

lemma setLegsScale_alive:
  assumes "\<not> isDead r" "rightFemur r = Some rf" "leftFemur r = Some lf"
    "rightShoulder r = Some rs" "leftShoulder r = Some ls"
  shows "setLegsScale v r =
     Some (legs_written (if v > MAX_LEG_STRETCH r then MAX_LEG_STRETCH r
                         else if v < MIN_LEG_STRETCH r then MIN_LEG_STRETCH r else v)
             rf lf rs ls r)"
  using assms
  by (simp add: setLegsScale_def legs_written_def Let_def legs_write_defs modify_fields)

lemma legs_written_fields:
  "isDead (legs_written s rf lf rs ls r) = isDead r"
  "legHeight (legs_written s rf lf rs ls r) = legHeight r"
  "rightFemur (legs_written s rf lf rs ls r) = rightFemur r"
  "leftFemur (legs_written s rf lf rs ls r) = leftFemur r"
  "rightShoulder (legs_written s rf lf rs ls r) = rightShoulder r"
  "leftShoulder (legs_written s rf lf rs ls r) = leftShoulder r"
  "MAX_LEG_STRETCH (legs_written s rf lf rs ls r) = MAX_LEG_STRETCH r"
  "MIN_LEG_STRETCH (legs_written s rf lf rs ls r) = MIN_LEG_STRETCH r"
  by (simp_all add: legs_written_def legs_write_defs modify_fields)

lemma legs_written_frame:
  "(legs_written s rf lf rs ls r)\<lparr> objects := h \<rparr> = r\<lparr> objects := h \<rparr>"
  by (simp add: legs_written_def legs_write_defs modify_frame)

lemma legs_written_objects:
  "objects (legs_written s rf lf rs ls r) b =
     (let ob = objects r b;
          ob = (if b = rf then ob\<lparr> scale := \<lparr> x = 1, y = s, z = 1 \<rparr> \<rparr> else ob);
          ob = (if b = rf then ob\<lparr> position := (position ob)\<lparr> y := legHeight r * 0.75 / 2 \<rparr> \<rparr> else ob);
          ob = (if b = lf then ob\<lparr> scale := \<lparr> x = 1, y = s, z = 1 \<rparr> \<rparr> else ob);
          ob = (if b = lf then ob\<lparr> position := (position ob)\<lparr> y := legHeight r * 0.75 / 2 \<rparr> \<rparr> else ob);
          ob = (if b = rs then ob\<lparr> position := (position ob)\<lparr> y := (legHeight r * 0.75) * s \<rparr> \<rparr> else ob);
          ob = (if b = ls then ob\<lparr> position := (position ob)\<lparr> y := (legHeight r * 0.75) * s \<rparr> \<rparr> else ob)
      in ob)"
  by (cases "b = rf"; cases "b = lf"; cases "b = rs"; cases "b = ls")
     (simp_all add: legs_written_def legs_write_defs objects_modify modify_fields Let_def)

lemma legs_written_idem:
  "legs_written s rf lf rs ls (legs_written s rf lf rs ls r) = legs_written s rf lf rs ls r"
proof (rule robot_eqI)
  show "(legs_written s rf lf rs ls (legs_written s rf lf rs ls r))
          \<lparr> objects := objects (legs_written s rf lf rs ls r) \<rparr> = legs_written s rf lf rs ls r"
    by (subst legs_written_frame) simp
next
  fix b
  show "objects (legs_written s rf lf rs ls (legs_written s rf lf rs ls r)) b
          = objects (legs_written s rf lf rs ls r) b"
    by (cases "b = rf"; cases "b = lf"; cases "b = rs"; cases "b = ls")
       (simp_all add: legs_written_objects legs_written_fields Let_def)
qed

lemma clamp_max_min:
  "lo \<le> hi \<Longrightarrow> (if v > hi then hi else if v < lo then lo else v) = max lo (min hi (v::real))"
  by (simp add: max_def min_def)

lemma assembledD:
  assumes "assembled r"
  shows "rightFemur r = Some (Suc 0)" "leftFemur r = Some 4"
    "rightShoulder r = Some 2" "leftShoulder r = Some 5"
    "body r = Some 6" "head r = Some 7"
    "MAX_ROBOT_ENERGY r = 100"
    "MAX_HEAD_ANGLE r = 80" "MIN_HEAD_ANGLE r = - 80"
    "MAX_BODY_ANGLE r = 30" "MIN_BODY_ANGLE r = - 45"
    "MAX_LEG_STRETCH r = 1.2" "MIN_LEG_STRETCH r = 1"
  using assms by (simp_all add: assembled_def)

lemma setHeadRotation_assembled:
  assumes "assembled r" and "\<not> isDead r"
  shows "setHeadRotation v r = Some (set_rotation_y 7 (degToRad (max (- 80) (min 80 v))) r)"
  using assms(2)
  by (simp add: assembledD [OF assms(1)] setHeadRotation_def Let_def clamp_max_min [symmetric])

lemma setBodyRotation_assembled:
  assumes "assembled r" and "\<not> isDead r"
  shows "setBodyRotation v r = Some (set_rotation_x 6 (degToRad (max (- 45) (min 30 v))) r)"
  using assms(2)
  by (simp add: assembledD [OF assms(1)] setBodyRotation_def Let_def clamp_max_min [symmetric])

lemma setLegsScale_assembled:
  assumes "assembled r" and "\<not> isDead r"
  shows "setLegsScale v r = Some (legs_written (max 1 (min 1.2 v)) (Suc 0) 4 2 5 r)"
proof -
  have "setLegsScale v r =
     Some (legs_written (if v > MAX_LEG_STRETCH r then MAX_LEG_STRETCH r
                         else if v < MIN_LEG_STRETCH r then MIN_LEG_STRETCH r else v)
             (Suc 0) 4 2 5 r)"
    by (rule setLegsScale_alive [OF assms(2)]) (rule assembledD [OF assms(1)])+
  also have "(if v > MAX_LEG_STRETCH r then MAX_LEG_STRETCH r
              else if v < MIN_LEG_STRETCH r then MIN_LEG_STRETCH r else v) = max 1 (min 1.2 v)"
    unfolding assembledD [OF assms(1)] by (rule clamp_max_min) simp
  finally show ?thesis .
qed

lemma legs_written_assembled_objects:
  "objects (legs_written s (Suc 0) 4 2 5 r) (Suc 0) =
     (objects r (Suc 0))\<lparr> scale := \<lparr> x = 1, y = s, z = 1 \<rparr>,
                    position := (position (objects r (Suc 0)))\<lparr> y := legHeight r * 0.75 / 2 \<rparr> \<rparr>"
  "objects (legs_written s (Suc 0) 4 2 5 r) 4 =
     (objects r 4)\<lparr> scale := \<lparr> x = 1, y = s, z = 1 \<rparr>,
                    position := (position (objects r 4))\<lparr> y := legHeight r * 0.75 / 2 \<rparr> \<rparr>"
  "objects (legs_written s (Suc 0) 4 2 5 r) 2 =
     (objects r 2)\<lparr> position := (position (objects r 2))\<lparr> y := (legHeight r * 0.75) * s \<rparr> \<rparr>"
  "objects (legs_written s (Suc 0) 4 2 5 r) 5 =
     (objects r 5)\<lparr> position := (position (objects r 5))\<lparr> y := (legHeight r * 0.75) * s \<rparr> \<rparr>"
  by (simp_all add: legs_written_objects Let_def)

lemma idem_head: "(setHeadRotation v r \<bind> setHeadRotation v) = setHeadRotation v r"
  by (cases "head r") (simp_all add: setHeadRotation_def write_defs Let_def)

lemma idem_body: "(setBodyRotation v r \<bind> setBodyRotation v) = setBodyRotation v r"
  by (cases "body r") (simp_all add: setBodyRotation_def write_defs Let_def)

lemma idem_legs: "(setLegsScale v r \<bind> setLegsScale v) = setLegsScale v r"
proof (cases "isDead r")
  case True
  then show ?thesis by (simp add: setLegsScale_def)
next
  case alive: False
  show ?thesis
  proof (cases "rightFemur r = None \<or> leftFemur r = None \<or> rightShoulder r = None \<or> leftShoulder r = None")
    case True
    then have "setLegsScale v r = None"
      using alive by (auto simp: setLegsScale_def Let_def legs_write_defs modify_fields)
    then show ?thesis by simp
  next
    case False
    then obtain rf lf rs ls where s: "rightFemur r = Some rf" "leftFemur r = Some lf"
      "rightShoulder r = Some rs" "leftShoulder r = Some ls" by auto
    show ?thesis
      by (simp add: setLegsScale_alive [OF alive s] setLegsScale_alive legs_written_fields alive s
            legs_written_idem)
  qed
qed

lemmas mesh_defs = footMesh_def femurMesh_def shoulderMesh_def bodyMesh_def headMesh_def eyeMesh_def

lemma upt_12: "[0 ..< 12] = [0, Suc 0, 2, 3, 4, 5, 6, 7, 8, 9, 10, 11]"
  by (simp add: upt_rec)

section \<open>Energy and points along call sequences\<close>

lemmas vitality_defs = substractEnergy_def addEnergy_def addPoints_def

lemma setHeadRotation_frame:
  "setHeadRotation v s = Some s' \<Longrightarrow> s'\<lparr> objects := objects s \<rparr> = s"
  by (cases "isDead s"; cases "head s")
     (auto simp: setHeadRotation_def Let_def set_rotation_y_def modify_frame)

lemma setBodyRotation_frame:
  "setBodyRotation v s = Some s' \<Longrightarrow> s'\<lparr> objects := objects s \<rparr> = s"
  by (cases "isDead s"; cases "body s")
     (auto simp: setBodyRotation_def Let_def set_rotation_x_def modify_frame)

lemma setLegsScale_frame:
  assumes "setLegsScale v s = Some s'"
  shows "s'\<lparr> objects := objects s \<rparr> = s"
proof (cases "isDead s")
  case True
  with assms show ?thesis by (simp add: setLegsScale_def)
next
  case alive: False
  show ?thesis
  proof (cases "rightFemur s = None \<or> leftFemur s = None \<or> rightShoulder s = None \<or> leftShoulder s = None")
    case True
    then have "setLegsScale v s = None"
      using alive by (auto simp: setLegsScale_def Let_def legs_write_defs modify_fields)
    with assms show ?thesis by simp
  next
    case False
    then obtain rf lf rs ls where sl: "rightFemur s = Some rf" "leftFemur s = Some lf"
      "rightShoulder s = Some rs" "leftShoulder s = Some ls" by auto
    from assms show ?thesis
      by (auto simp: setLegsScale_alive [OF alive sl] legs_written_frame)
  qed
qed

lemma motion_frame:
  assumes "motion_call c" and "exec c s = Some s'"
  shows "s'\<lparr> objects := objects s \<rparr> = s"
  using assms
  by (cases c) (simp_all add: setHeadRotation_frame setBodyRotation_frame setLegsScale_frame)

lemma motion_fields:
  assumes "motion_call c" and "exec c s = Some s'"
  shows "currentEnergy s' = currentEnergy s" "currentPoints s' = currentPoints s"
    "isDead s' = isDead s" "MAX_ROBOT_ENERGY s' = MAX_ROBOT_ENERGY s"
proof -
  have f: "s'\<lparr> objects := objects s \<rparr> = s"
    using assms by (rule motion_frame)
  have "currentEnergy (s'\<lparr> objects := objects s \<rparr>) = currentEnergy s'"
    "currentPoints (s'\<lparr> objects := objects s \<rparr>) = currentPoints s'"
    "isDead (s'\<lparr> objects := objects s \<rparr>) = isDead s'"
    "MAX_ROBOT_ENERGY (s'\<lparr> objects := objects s \<rparr>) = MAX_ROBOT_ENERGY s'"
    by simp_all
  then show "currentEnergy s' = currentEnergy s" "currentPoints s' = currentPoints s"
    "isDead s' = isDead s" "MAX_ROBOT_ENERGY s' = MAX_ROBOT_ENERGY s"
    by (simp_all only: f)
qed






lemma addEnergy_le_max:
  "currentEnergy s \<le> MAX_ROBOT_ENERGY s \<Longrightarrow> currentEnergy (addEnergy v s) \<le> MAX_ROBOT_ENERGY s"
  by (simp add: addEnergy_def)




lemma exec_points_step:
  assumes "nonneg_points c" and "exec c s = Some s'"
  shows "currentPoints s \<le> currentPoints s'"
proof (cases "motion_call c")
  case True
  then show ?thesis using motion_fields(2) [OF True assms(2)] by simp
next
  case False
  with assms show ?thesis
    by (cases c) (auto simp: vitality_defs Let_def split: if_splits)
qed

lemma exec_points_frame:
  assumes "\<not> points_call c" and "exec c s = Some s'"
  shows "currentPoints s' = currentPoints s"
proof (cases "motion_call c")
  case True
  then show ?thesis using motion_fields(2) [OF True assms(2)] by simp
next
  case False
  with assms show ?thesis
    by (cases c) (auto simp: vitality_defs Let_def split: if_splits)
qed

lemma run_points_mono:
  "run cs s = Some s' \<Longrightarrow> list_all nonneg_points cs \<Longrightarrow> currentPoints s \<le> currentPoints s'"
proof (induction cs arbitrary: s)
  case Nil
  then show ?case by simp
next
  case (Cons c cs)
  from Cons.prems(1) obtain s1 where s1: "exec c s = Some s1" "run cs s1 = Some s'"
    by (auto split: option.splits)
  from Cons.prems(2) have nn: "nonneg_points c" "list_all nonneg_points cs" by simp_all
  from exec_points_step [OF nn(1) s1(1)] Cons.IH [OF s1(2) nn(2)]
  show ?case by simp
qed

lemma exec_legs_untouched:
  assumes "assembled s" and "\<not> legs_call c" and "exec c s = Some s'"
  shows "objects s' (Suc 0) = objects s (Suc 0) \<and> objects s' 2 = objects s 2 \<and>
         objects s' 4 = objects s 4 \<and> objects s' 5 = objects s 5 \<and>
         legHeight s' = legHeight s"
proof (cases "isDead s")
  case True
  with assms(3) show ?thesis by (simp add: dead_exec)
next
  case False
  with assms(2,3) show ?thesis
    by (cases c)
       (auto simp: setHeadRotation_assembled [OF assms(1) False]
          setBodyRotation_assembled [OF assms(1) False]
          set_rotation_x_def set_rotation_y_def objects_modify modify_fields
          vitality_defs Let_def)
qed

lemma run_legs_untouched:
  "assembled s \<Longrightarrow> list_all (\<lambda>c. \<not> legs_call c) cs \<Longrightarrow> run cs s = Some r \<Longrightarrow>
     objects r (Suc 0) = objects s (Suc 0) \<and> objects r 2 = objects s 2 \<and>
     objects r 4 = objects s 4 \<and> objects r 5 = objects s 5 \<and>
     legHeight r = legHeight s"
proof (induction cs arbitrary: s)
  case Nil
  then show ?case by simp
next
  case (Cons c cs)
  from assembled_exec [OF Cons.prems(1), of c] obtain s1
    where s1: "exec c s = Some s1" "assembled s1" by blast
  from Cons.prems(2) have nl: "\<not> legs_call c" "list_all (\<lambda>c. \<not> legs_call c) cs" by simp_all
  from Cons.prems(3) s1(1) have "run cs s1 = Some r" by simp
  from Cons.IH [OF s1(2) nl(2) this] exec_legs_untouched [OF Cons.prems(1) nl(1) s1(1)]
  show ?case by simp
qed

section \<open>The claims\<close>

text \<open>
  Claim C1. Once the energy of the figure is at or below zero after \<open>substractEnergy\<close>,
  the figure is dead, and from then on \<open>setHeadRotation\<close>, \<open>setBodyRotation\<close>,
  \<open>setLegsScale\<close>, \<open>substractEnergy\<close>, \<open>addEnergy\<close> and \<open>addPoints\<close>, and any sequence of
  them, leave the whole state of the figure as it is; in particular \<open>isDead\<close> stays true.
\<close>

theorem dead_figure_frozen:
  assumes "r' = substractEnergy damage r" and "currentEnergy r' \<le> 0"
  shows "isDead r' \<and>
         setHeadRotation v r' = Some r' \<and> setBodyRotation v r' = Some r' \<and>
         setLegsScale v r' = Some r' \<and> substractEnergy v r' = r' \<and>
         addEnergy v r' = r' \<and> addPoints v r' = r' \<and>
         run cs r' = Some r'"
proof -
  from assms have dead: "isDead r'"
    by (simp add: substractEnergy_dead)
  then show ?thesis
    by (simp add: dead_run setter_defs substractEnergy_def addEnergy_def addPoints_def)
qed

theorem dead_figure_frozen_witness:
  "currentEnergy (substractEnergy 150 (Robot no_parameters)) \<le> 0 \<and>
   isDead (substractEnergy 150 (Robot no_parameters)) \<and>
   setHeadRotation 10 (substractEnergy 150 (Robot no_parameters))
     = Some (substractEnergy 150 (Robot no_parameters)) \<and>
   addEnergy 10 (substractEnergy 150 (Robot no_parameters))
     = substractEnergy 150 (Robot no_parameters) \<and>
   run [AddEnergy 10, SetLegsScale 1.1, AddPoints 3] (substractEnergy 150 (Robot no_parameters))
     = Some (substractEnergy 150 (Robot no_parameters))"
proof -
  have e: "currentEnergy (substractEnergy 150 (Robot no_parameters)) \<le> 0"
    by (simp add: substractEnergy_def Let_def Robot_scalars Robot_fields_limits)
  from dead_figure_frozen [OF refl e, of 10 "[AddEnergy 10, SetLegsScale 1.1, AddPoints 3]"] e
  show ?thesis by blast
qed

text \<open>
  Claim C2. On a live figure reached from the constructor by any sequence of calls,
  \<open>setHeadRotation\<close> clamps the input to [-80, 80] degrees and writes the clamped angle
  times pi / 180, that is in radians, to the Y rotation of the head; \<open>setBodyRotation\<close>
  clamps the input to [-45, 30] degrees and writes the clamped angle times pi / 180 to the
  X rotation of the body; \<open>setLegsScale\<close> gives both femurs the Y scale of the input
  clamped to [1, 1.2]. No input makes a setter fail.
\<close>

theorem setters_clamp:
  assumes "run cs (Robot prm) = Some r" and "\<not> isDead r"
  shows "\<exists>r1 r2 r3 h b rf lf.
           setHeadRotation v r = Some r1 \<and> head r1 = Some h \<and>
           y (rotation (objects r1 h)) = max (- 80) (min 80 v) * pi / 180 \<and>
           setBodyRotation v r = Some r2 \<and> body r2 = Some b \<and>
           x (rotation (objects r2 b)) = max (- 45) (min 30 v) * pi / 180 \<and>
           setLegsScale v r = Some r3 \<and> rightFemur r3 = Some rf \<and> leftFemur r3 = Some lf \<and>
           y (scale (objects r3 rf)) = max 1 (min 1.2 v) \<and>
           y (scale (objects r3 lf)) = max 1 (min 1.2 v)"
proof -
  from assms(1) have a: "assembled r" by (rule reachable_assembled)
  note s = assembledD [OF a]
  have head_rad: "degToRad (max (- 80) (min 80 v)) = max (- 80) (min 80 v) * pi / 180"
    and body_rad: "degToRad (max (- 45) (min 30 v)) = max (- 45) (min 30 v) * pi / 180"
    by (simp_all only: degToRad_def)
  have "\<exists>r1 r2 r3 h b rf lf.
           setHeadRotation v r = Some r1 \<and> head r1 = Some h \<and>
           y (rotation (objects r1 h)) = degToRad (max (- 80) (min 80 v)) \<and>
           setBodyRotation v r = Some r2 \<and> body r2 = Some b \<and>
           x (rotation (objects r2 b)) = degToRad (max (- 45) (min 30 v)) \<and>
           setLegsScale v r = Some r3 \<and> rightFemur r3 = Some rf \<and> leftFemur r3 = Some lf \<and>
           y (scale (objects r3 rf)) = max 1 (min 1.2 v) \<and>
           y (scale (objects r3 lf)) = max 1 (min 1.2 v)"
    by (simp add: setHeadRotation_assembled [OF a assms(2)]
        setBodyRotation_assembled [OF a assms(2)] setLegsScale_assembled [OF a assms(2)]
        set_rotation_x_def set_rotation_y_def modify_fields objects_modify s
        legs_written_fields legs_written_assembled_objects)
  then show ?thesis
    unfolding head_rad body_rad .
qed

theorem setters_clamp_witness:
  "run [SetLegsScale 1.1, AddPoints 3] (Robot no_parameters) \<noteq> None \<and>
   \<not> isDead (the (run [SetLegsScale 1.1, AddPoints 3] (Robot no_parameters))) \<and>
   (\<exists>r1 r2 r3 h b rf lf.
      setHeadRotation 99999 (the (run [SetLegsScale 1.1, AddPoints 3] (Robot no_parameters))) = Some r1 \<and>
      head r1 = Some h \<and> y (rotation (objects r1 h)) = 80 * pi / 180 \<and>
      setBodyRotation 99999 (the (run [SetLegsScale 1.1, AddPoints 3] (Robot no_parameters))) = Some r2 \<and>
      body r2 = Some b \<and> x (rotation (objects r2 b)) = 30 * pi / 180 \<and>
      setLegsScale 99999 (the (run [SetLegsScale 1.1, AddPoints 3] (Robot no_parameters))) = Some r3 \<and>
      rightFemur r3 = Some rf \<and> leftFemur r3 = Some lf \<and>
      y (scale (objects r3 rf)) = 1.2 \<and> y (scale (objects r3 lf)) = 1.2) \<and>
   (\<exists>r1 r2 r3 h b rf lf.
      setHeadRotation (- 99999) (the (run [SetLegsScale 1.1, AddPoints 3] (Robot no_parameters))) = Some r1 \<and>
      head r1 = Some h \<and> y (rotation (objects r1 h)) = - 80 * pi / 180 \<and>
      setBodyRotation (- 99999) (the (run [SetLegsScale 1.1, AddPoints 3] (Robot no_parameters))) = Some r2 \<and>
      body r2 = Some b \<and> x (rotation (objects r2 b)) = - 45 * pi / 180 \<and>
      setLegsScale (- 99999) (the (run [SetLegsScale 1.1, AddPoints 3] (Robot no_parameters))) = Some r3 \<and>
      rightFemur r3 = Some rf \<and> leftFemur r3 = Some lf \<and>
      y (scale (objects r3 rf)) = 1 \<and> y (scale (objects r3 lf)) = 1)"
proof -
  have alive: "\<not> isDead (Robot no_parameters)"
    by (simp add: Robot_scalars Robot_fields_limits)
  have run: "run [SetLegsScale 1.1, AddPoints 3] (Robot no_parameters)
      = Some (addPoints 3 (legs_written (max 1 (min 1.2 1.1)) (Suc 0) 4 2 5 (Robot no_parameters)))"
    by (simp add: setLegsScale_assembled [OF assembled_Robot alive])
  have live: "\<not> isDead (addPoints 3 (legs_written (max 1 (min 1.2 1.1)) (Suc 0) 4 2 5 (Robot no_parameters)))"
    using alive by (simp add: addPoints_def legs_written_fields)
  from setters_clamp [OF run live, of 99999] setters_clamp [OF run live, of "- 99999"] run live
  show ?thesis by simp
qed




text \<open>
  Claim C4. For every parameters object, the height and width of the figure are the given
  ones or the defaults 21 and 12.5, and the dimensions of the parts are the fixed ratios:
  the fields \<open>legHeight\<close>, \<open>bodyHeight\<close>, \<open>bodyWidth\<close>, \<open>headRadius\<close>, and the geometries of
  the feet, femurs, shoulders, head and eye that the constructor builds. With the defaults
  \<open>legHeight\<close> is 15.9999 and \<open>headRadius\<close> is 2.9988.
\<close>

theorem derived_dimensions:
  "robot.robotHeight (Robot prm) = (case parameters.robotHeight prm of None \<Rightarrow> 21 | Some v \<Rightarrow> v) \<and>
   robot.robotWidth (Robot prm) = (case parameters.robotWidth prm of None \<Rightarrow> 12.5 | Some v \<Rightarrow> v) \<and>
   legHeight (Robot prm) = robot.robotHeight (Robot prm) * 0.7619 \<and>
   bodyHeight (Robot prm) = robot.robotHeight (Robot prm) * 0.6667 \<and>
   bodyWidth (Robot prm) = bodyHeight (Robot prm) * 0.5 \<and>
   headRadius (Robot prm) = robot.robotHeight (Robot prm) * 0.1428 \<and>
   (\<exists>rfoot lfoot rfemur lfemur rshoulder lshoulder h eye.
      rightFoot (Robot prm) = Some rfoot \<and> leftFoot (Robot prm) = Some lfoot \<and>
      rightFemur (Robot prm) = Some rfemur \<and> leftFemur (Robot prm) = Some lfemur \<and>
      rightShoulder (Robot prm) = Some rshoulder \<and> leftShoulder (Robot prm) = Some lshoulder \<and>
      head (Robot prm) = Some h \<and> children (objects (Robot prm) h) = [eye] \<and>
      (let footHeight = legHeight (Robot prm) * 0.125;
           footRadiusTop = footHeight / 2;
           footRadiusBottom = legHeight (Robot prm) * 0.1875 / 2;
           femurLength = legHeight (Robot prm) * 0.75;
           femurRadius = legHeight (Robot prm) * 0.09375 * 0.5;
           shoulderSide = legHeight (Robot prm) * 0.125;
           eyeRadius = headRadius (Robot prm) * 0.25;
           eyeHeight = eyeRadius / 2
       in kind (objects (Robot prm) rfoot) =
            Mesh (CylinderGeometry footRadiusTop footRadiusBottom footHeight 30 None)
              (robot.materialFoot (Robot prm)) \<and>
          kind (objects (Robot prm) lfoot) =
            Mesh (CylinderGeometry footRadiusTop footRadiusBottom footHeight 30 None)
              (robot.materialFoot (Robot prm)) \<and>
          kind (objects (Robot prm) rfemur) =
            Mesh (CylinderGeometry femurRadius femurRadius femurLength 30 None)
              (robot.materialFemur (Robot prm)) \<and>
          kind (objects (Robot prm) lfemur) =
            Mesh (CylinderGeometry femurRadius femurRadius femurLength 30 None)
              (robot.materialFemur (Robot prm)) \<and>
          kind (objects (Robot prm) rshoulder) =
            Mesh (BoxGeometry shoulderSide shoulderSide shoulderSide)
              (robot.materialShoulder (Robot prm)) \<and>
          kind (objects (Robot prm) lshoulder) =
            Mesh (BoxGeometry shoulderSide shoulderSide shoulderSide)
              (robot.materialShoulder (Robot prm)) \<and>
          kind (objects (Robot prm) h) =
            Mesh (SphereGeometry (headRadius (Robot prm)) 30 30)
              (robot.materialHead (Robot prm)) \<and>
          kind (objects (Robot prm) eye) =
            Mesh (RotationX (pi / 3) (CylinderGeometry eyeRadius eyeRadius eyeHeight 30 (Some 30)))
              (MeshPhongMaterial (metalTexture (Robot prm))))) \<and>
   legHeight (Robot no_parameters) = 15.9999 \<and>
   headRadius (Robot no_parameters) = 2.9988"
  by (simp add: Robot_slots Robot_objects mesh_defs Let_def Robot_scalars Robot_fields_dims
        no_parameters_def)

text \<open>
  Claim C5. On a live figure reached from the constructor by any sequence of calls,
  \<open>setLegsScale\<close> sets the scale of both femurs to (1, s, 1), where s is the input clamped to
  [1, 1.2], the Y position of both femurs to \<open>legHeight\<close> * 0.75 / 2, and the Y position of both
  shoulders to \<open>legHeight\<close> * 0.75 * s. For the input 5, s is 1.2 (the witness).
\<close>

theorem setLegsScale_effect:
  assumes "run cs (Robot prm) = Some r" and "\<not> isDead r"
  shows "\<exists>r' rf lf rs ls.
           setLegsScale v r = Some r' \<and>
           rightFemur r' = Some rf \<and> leftFemur r' = Some lf \<and>
           rightShoulder r' = Some rs \<and> leftShoulder r' = Some ls \<and>
           legHeight r' = legHeight r \<and>
           scale (objects r' rf) = \<lparr> x = 1, y = max 1 (min 1.2 v), z = 1 \<rparr> \<and>
           scale (objects r' lf) = \<lparr> x = 1, y = max 1 (min 1.2 v), z = 1 \<rparr> \<and>
           y (position (objects r' rf)) = legHeight r * 0.75 / 2 \<and>
           y (position (objects r' lf)) = legHeight r * 0.75 / 2 \<and>
           y (position (objects r' rs)) = legHeight r * 0.75 * max 1 (min 1.2 v) \<and>
           y (position (objects r' ls)) = legHeight r * 0.75 * max 1 (min 1.2 v)"
proof -
  from assms(1) have a: "assembled r" by (rule reachable_assembled)
  show ?thesis
    by (simp add: setLegsScale_assembled [OF a assms(2)] assembledD [OF a]
          legs_written_fields legs_written_assembled_objects)
qed

theorem setLegsScale_effect_witness:
  "run [] (Robot no_parameters) = Some (Robot no_parameters) \<and>
   \<not> isDead (Robot no_parameters) \<and>
   (\<exists>r' rf lf rs ls.
      setLegsScale 5 (Robot no_parameters) = Some r' \<and>
      rightFemur r' = Some rf \<and> leftFemur r' = Some lf \<and>
      rightShoulder r' = Some rs \<and> leftShoulder r' = Some ls \<and>
      y (scale (objects r' rf)) = 1.2 \<and> y (scale (objects r' lf)) = 1.2 \<and>
      y (position (objects r' rs)) = legHeight (Robot no_parameters) * 0.75 * 1.2 \<and>
      y (position (objects r' ls)) = legHeight (Robot no_parameters) * 0.75 * 1.2)"
proof -
  have alive: "\<not> isDead (Robot no_parameters)"
    by (simp add: Robot_scalars Robot_fields_limits)
  have run: "run [] (Robot no_parameters) = Some (Robot no_parameters)"
    by simp
  from setLegsScale_effect [OF run alive, of 5] obtain r' rf lf rs ls where
    "setLegsScale 5 (Robot no_parameters) = Some r'"
    "rightFemur r' = Some rf" "leftFemur r' = Some lf"
    "rightShoulder r' = Some rs" "leftShoulder r' = Some ls"
    "scale (objects r' rf) = \<lparr> x = 1, y = max 1 (min 1.2 5), z = 1 \<rparr>"
    "scale (objects r' lf) = \<lparr> x = 1, y = max 1 (min 1.2 5), z = 1 \<rparr>"
    "y (position (objects r' rs)) = legHeight (Robot no_parameters) * 0.75 * max 1 (min 1.2 5)"
    "y (position (objects r' ls)) = legHeight (Robot no_parameters) * 0.75 * max 1 (min 1.2 5)"
    by blast
  then have "setLegsScale 5 (Robot no_parameters) = Some r' \<and>
      rightFemur r' = Some rf \<and> leftFemur r' = Some lf \<and>
      rightShoulder r' = Some rs \<and> leftShoulder r' = Some ls \<and>
      y (scale (objects r' rf)) = 1.2 \<and> y (scale (objects r' lf)) = 1.2 \<and>
      y (position (objects r' rs)) = legHeight (Robot no_parameters) * 0.75 * 1.2 \<and>
      y (position (objects r' ls)) = legHeight (Robot no_parameters) * 0.75 * 1.2"
    by simp
  with run alive show ?thesis by blast
qed

text \<open>
  Claim C6. Each of the three motion setters is idempotent: in every state of the figure
  and for every input, calling the setter a second time with the same input gives the
  result of the first call (an exception of the first call included).
\<close>

theorem setters_idempotent:
  "(setHeadRotation v r \<bind> setHeadRotation v) = setHeadRotation v r \<and>
   (setBodyRotation v r \<bind> setBodyRotation v) = setBodyRotation v r \<and>
   (setLegsScale v r \<bind> setLegsScale v) = setLegsScale v r"
  by (simp only: idem_head idem_body idem_legs)

text \<open>
  The claim C7 as stated fails: \<open>addPoints\<close> accepts a negative amount, and -5 on a new
  figure leaves the points at -5, below 0 and below their previous value.
\<close>

theorem points_counterexample:
  "\<not> 0 \<le> currentPoints (addPoints (- 5) (Robot no_parameters)) \<and>
   \<not> currentPoints (Robot no_parameters) \<le> currentPoints (addPoints (- 5) (Robot no_parameters))"
  by (simp add: addPoints_def Robot_scalars Robot_fields_limits)

text \<open>
  Claim C7, amended. The points of a new figure are 0. In every state, \<open>addPoints\<close> with an
  amount that is not negative leaves the points where they are or raises them, and on a
  dead figure it leaves them unchanged whatever the amount; no other call changes the
  points. So along every sequence of calls whose point amounts are not negative the points
  never decrease, and from a new figure they are never negative.
\<close>

theorem points_monotone:
  "currentPoints (Robot prm) = 0 \<and>
   (0 \<le> v \<longrightarrow> currentPoints s \<le> currentPoints (addPoints v s)) \<and>
   (isDead s \<longrightarrow> currentPoints (addPoints v s) = currentPoints s) \<and>
   (\<not> points_call c \<and> exec c s = Some s' \<longrightarrow> currentPoints s' = currentPoints s) \<and>
   (list_all nonneg_points cs \<and> run cs s = Some s'' \<longrightarrow> currentPoints s \<le> currentPoints s'') \<and>
   (list_all nonneg_points cs \<and> run cs (Robot prm) = Some r \<longrightarrow> 0 \<le> currentPoints r)"
proof -
  have init: "currentPoints (Robot prm) = 0"
    by (simp add: Robot_scalars Robot_fields_limits)
  have add: "0 \<le> v \<longrightarrow> currentPoints s \<le> currentPoints (addPoints v s)"
    "isDead s \<longrightarrow> currentPoints (addPoints v s) = currentPoints s"
    by (simp_all add: addPoints_def)
  have frame: "\<not> points_call c \<and> exec c s = Some s' \<longrightarrow> currentPoints s' = currentPoints s"
    using exec_points_frame by blast
  have mono: "list_all nonneg_points cs \<and> run cs s = Some s'' \<longrightarrow> currentPoints s \<le> currentPoints s''"
    using run_points_mono by blast
  have reach: "list_all nonneg_points cs \<and> run cs (Robot prm) = Some r \<longrightarrow> 0 \<le> currentPoints r"
    using run_points_mono [of cs "Robot prm" r] init by auto
  from init add frame mono reach show ?thesis by blast
qed

theorem points_monotone_witness:
  "(0::real) \<le> 5 \<and>
   currentPoints (substractEnergy 150 (Robot no_parameters))
     \<le> currentPoints (addPoints 5 (substractEnergy 150 (Robot no_parameters))) \<and>
   isDead (substractEnergy 150 (Robot no_parameters)) \<and>
   currentPoints (addPoints 5 (substractEnergy 150 (Robot no_parameters)))
     = currentPoints (substractEnergy 150 (Robot no_parameters)) \<and>
   \<not> points_call (AddEnergy 1) \<and>
   exec (AddEnergy 1) (substractEnergy 150 (Robot no_parameters))
     = Some (substractEnergy 150 (Robot no_parameters)) \<and>
   list_all nonneg_points [AddPoints 5, AddPoints 2] \<and>
   run [AddPoints 5, AddPoints 2] (substractEnergy 150 (Robot no_parameters))
     = Some (substractEnergy 150 (Robot no_parameters)) \<and>
   run [AddPoints 5, AddPoints 2] (Robot no_parameters)
     = Some (addPoints 2 (addPoints 5 (Robot no_parameters))) \<and>
   0 \<le> currentPoints (addPoints 2 (addPoints 5 (Robot no_parameters))) \<and>
   currentPoints (addPoints 2 (addPoints 5 (Robot no_parameters))) = 7"
proof -
  let ?d = "substractEnergy 150 (Robot no_parameters)"
  let ?r = "addPoints 2 (addPoints 5 (Robot no_parameters))"
  have dead: "isDead ?d"
    by (simp add: substractEnergy_def Let_def Robot_scalars Robot_fields_limits)
  have ex: "exec (AddEnergy 1) ?d = Some ?d"
    using dead by (rule dead_exec)
  have rd: "run [AddPoints 5, AddPoints 2] ?d = Some ?d"
    using dead by (rule dead_run)
  have rr: "run [AddPoints 5, AddPoints 2] (Robot no_parameters) = Some ?r"
    by simp
  have val: "currentPoints ?r = 7"
    by (simp add: addPoints_def Robot_scalars Robot_fields_limits)
  from points_monotone [of no_parameters 5 ?d "AddEnergy 1" ?d "[AddPoints 5, AddPoints 2]" ?d ?r]
    dead ex rd rr val
  show ?thesis by simp
qed

text \<open>
  Claim C8. The constructor creates twelve distinct objects. The root has the two feet (and
  the light, its target and the camera) as children; each foot has its femur and its
  shoulder; the left shoulder has the body as its only child, the body the head, the head
  the eye; the right shoulder has no child, and the left shoulder is the only object with
  the body among its children. \<open>createFoot\<close> returns the foot with femur and shoulder
  attached and assigns the slots of its side (for side >= 0 the left ones, and the body
  hangs under the shoulder); \<open>createBody\<close> and \<open>createHead\<close> assign the slots \<open>body\<close> and
  \<open>head\<close>.
\<close>

theorem body_under_left_shoulder:
  "(\<exists>rfoot lfoot rfemur lfemur rshoulder lshoulder b h eye light tgt camera.
      rightFoot (Robot prm) = Some rfoot \<and> leftFoot (Robot prm) = Some lfoot \<and>
      rightFemur (Robot prm) = Some rfemur \<and> leftFemur (Robot prm) = Some lfemur \<and>
      rightShoulder (Robot prm) = Some rshoulder \<and> leftShoulder (Robot prm) = Some lshoulder \<and>
      body (Robot prm) = Some b \<and> head (Robot prm) = Some h \<and>
      headLight (Robot prm) = Some light \<and> target (Robot prm) = Some tgt \<and>
      eyeCamera (Robot prm) = Some camera \<and>
      distinct [rfoot, lfoot, rfemur, lfemur, rshoulder, lshoulder, b, h, eye, light, tgt, camera] \<and>
      children (Robot prm) = [rfoot, lfoot, light, tgt, camera] \<and>
      children (objects (Robot prm) rfoot) = [rfemur, rshoulder] \<and>
      children (objects (Robot prm) lfoot) = [lfemur, lshoulder] \<and>
      children (objects (Robot prm) rfemur) = [] \<and>
      children (objects (Robot prm) lfemur) = [] \<and>
      children (objects (Robot prm) rshoulder) = [] \<and>
      children (objects (Robot prm) lshoulder) = [b] \<and>
      children (objects (Robot prm) b) = [h] \<and>
      children (objects (Robot prm) h) = [eye] \<and>
      children (objects (Robot prm) eye) = [] \<and>
      children (objects (Robot prm) light) = [] \<and>
      children (objects (Robot prm) tgt) = [] \<and>
      children (objects (Robot prm) camera) = [] \<and>
      filter (\<lambda>a. b \<in> set (children (objects (Robot prm) a))) [0 ..< nextAddr (Robot prm)]
        = [lshoulder]) \<and>
   (case createFoot side this of
      (foot, this') \<Rightarrow>
        \<exists>femur shoulder.
          children (objects this' foot) = [femur, shoulder] \<and>
          (if side \<ge> 0
           then leftFemur this' = Some femur \<and> leftShoulder this' = Some shoulder \<and>
                rightFemur this' = rightFemur this \<and> rightShoulder this' = rightShoulder this \<and>
                (\<exists>b. body this' = Some b \<and> children (objects this' shoulder) = [b])
           else rightFemur this' = Some femur \<and> rightShoulder this' = Some shoulder \<and>
                leftFemur this' = leftFemur this \<and> leftShoulder this' = leftShoulder this \<and>
                body this' = body this \<and> head this' = head this \<and>
                children (objects this' shoulder) = [])) \<and>
   (case createBody this of
      (b, this') \<Rightarrow>
        body this' = Some b \<and> (\<exists>h. head this' = Some h \<and> children (objects this' b) = [h])) \<and>
   (case createHead this of
      (h, this') \<Rightarrow>
        head this' = Some h \<and> (\<exists>eye. children (objects this' h) = [eye]))"
  apply (intro conjI)
  subgoal
    apply (rule exI [of _ 0], rule exI [of _ 3], rule exI [of _ "Suc 0"], rule exI [of _ 4])
    apply (rule exI [of _ 2], rule exI [of _ 5], rule exI [of _ 6], rule exI [of _ 7])
    apply (rule exI [of _ 8], rule exI [of _ 9], rule exI [of _ 10], rule exI [of _ 11])
    apply (simp add: Robot_slots Robot_more_slots Robot_objects mesh_defs
        headLightObject_def targetObject_def eyeCameraObject_def upt_12)
    done
  subgoal
    by (cases "side \<ge> 0") (simp_all add: createFoot_left createFoot_right mesh_defs)
  subgoal
    by (simp add: createBody_result mesh_defs)
  subgoal
    by (simp add: createHead_result mesh_defs)
  done

text \<open>
  Claim C9. \<open>addEnergy\<close> changes no field but \<open>currentEnergy\<close>; in particular \<open>isDead\<close> and
  \<open>currentPoints\<close> keep their values. After \<open>addEnergy(-150)\<close> on a new figure the energy is
  -50, the figure is not dead, and the three motion setters still write their clamped
  values.
\<close>

theorem addEnergy_frame:
  "addEnergy v r = r\<lparr> currentEnergy := currentEnergy (addEnergy v r) \<rparr> \<and>
   isDead (addEnergy v r) = isDead r \<and>
   currentPoints (addEnergy v r) = currentPoints r \<and>
   currentEnergy (addEnergy (- 150) (Robot prm)) = - 50 \<and>
   currentEnergy (addEnergy (- 150) (Robot prm)) \<le> 0 \<and>
   isDead (addEnergy (- 150) (Robot prm)) = False \<and>
   (\<exists>r1 r2 r3 h b rf lf rs ls.
      setHeadRotation w (addEnergy (- 150) (Robot prm)) = Some r1 \<and> head r1 = Some h \<and>
      y (rotation (objects r1 h)) = degToRad (max (- 80) (min 80 w)) \<and>
      setBodyRotation w (addEnergy (- 150) (Robot prm)) = Some r2 \<and> body r2 = Some b \<and>
      x (rotation (objects r2 b)) = degToRad (max (- 45) (min 30 w)) \<and>
      setLegsScale w (addEnergy (- 150) (Robot prm)) = Some r3 \<and>
      rightFemur r3 = Some rf \<and> leftFemur r3 = Some lf \<and>
      rightShoulder r3 = Some rs \<and> leftShoulder r3 = Some ls \<and>
      y (scale (objects r3 rf)) = max 1 (min 1.2 w) \<and>
      y (scale (objects r3 lf)) = max 1 (min 1.2 w) \<and>
      y (position (objects r3 rs)) = legHeight (Robot prm) * 0.75 * max 1 (min 1.2 w) \<and>
      y (position (objects r3 ls)) = legHeight (Robot prm) * 0.75 * max 1 (min 1.2 w))"
proof -
  let ?r = "addEnergy (- 150) (Robot prm)"
  have frame: "addEnergy v r = r\<lparr> currentEnergy := currentEnergy (addEnergy v r) \<rparr>"
    by (simp add: addEnergy_def)
  have fields: "isDead (addEnergy v r) = isDead r" "currentPoints (addEnergy v r) = currentPoints r"
    by (simp_all add: addEnergy_def)
  have energy: "currentEnergy ?r = - 50"
    by (simp add: addEnergy_def Robot_scalars Robot_fields_limits)
  have alive: "\<not> isDead ?r"
    by (simp add: addEnergy_def Robot_scalars Robot_fields_limits)
  have run: "run [AddEnergy (- 150)] (Robot prm) = Some ?r"
    by simp
  have a: "assembled ?r"
    using run by (rule reachable_assembled)
  have lh: "legHeight ?r = legHeight (Robot prm)"
    by (simp add: addEnergy_def)
  have setters: "\<exists>r1 r2 r3 h b rf lf rs ls.
      setHeadRotation w ?r = Some r1 \<and> head r1 = Some h \<and>
      y (rotation (objects r1 h)) = degToRad (max (- 80) (min 80 w)) \<and>
      setBodyRotation w ?r = Some r2 \<and> body r2 = Some b \<and>
      x (rotation (objects r2 b)) = degToRad (max (- 45) (min 30 w)) \<and>
      setLegsScale w ?r = Some r3 \<and>
      rightFemur r3 = Some rf \<and> leftFemur r3 = Some lf \<and>
      rightShoulder r3 = Some rs \<and> leftShoulder r3 = Some ls \<and>
      y (scale (objects r3 rf)) = max 1 (min 1.2 w) \<and>
      y (scale (objects r3 lf)) = max 1 (min 1.2 w) \<and>
      y (position (objects r3 rs)) = legHeight (Robot prm) * 0.75 * max 1 (min 1.2 w) \<and>
      y (position (objects r3 ls)) = legHeight (Robot prm) * 0.75 * max 1 (min 1.2 w)"
    by (simp add: setHeadRotation_assembled [OF a alive]
        setBodyRotation_assembled [OF a alive] setLegsScale_assembled [OF a alive]
        set_rotation_x_def set_rotation_y_def modify_fields objects_modify assembledD [OF a]
        legs_written_fields legs_written_assembled_objects lh)
  from frame fields energy alive setters show ?thesis
    by simp
qed

text \<open>
  Claim C10. The constructor puts both shoulders at Y = \<open>legHeight\<close> * 0.75 / 2 +
  \<open>legHeight\<close> * 0.125 / 2 and both femurs at Y = 0, and calls other than \<open>setLegsScale\<close>
  leave them there. The first \<open>setLegsScale(1.0)\<close> on a live figure puts the shoulders at
  Y = \<open>legHeight\<close> * 0.75 and the femurs at Y = \<open>legHeight\<close> * 0.75 / 2; unless the height of
  the figure is 0, all four positions change.
\<close>

theorem first_setLegsScale_moves_legs:
  assumes "run cs (Robot prm) = Some r" and "list_all (\<lambda>c. \<not> legs_call c) cs"
    and "\<not> isDead r"
  shows "\<exists>rf lf rs ls r'.
           rightFemur (Robot prm) = Some rf \<and> leftFemur (Robot prm) = Some lf \<and>
           rightShoulder (Robot prm) = Some rs \<and> leftShoulder (Robot prm) = Some ls \<and>
           y (position (objects (Robot prm) rs))
             = legHeight (Robot prm) * 0.75 / 2 + legHeight (Robot prm) * 0.125 / 2 \<and>
           y (position (objects (Robot prm) ls))
             = legHeight (Robot prm) * 0.75 / 2 + legHeight (Robot prm) * 0.125 / 2 \<and>
           y (position (objects (Robot prm) rf)) = 0 \<and>
           y (position (objects (Robot prm) lf)) = 0 \<and>
           objects r rs = objects (Robot prm) rs \<and> objects r ls = objects (Robot prm) ls \<and>
           objects r rf = objects (Robot prm) rf \<and> objects r lf = objects (Robot prm) lf \<and>
           setLegsScale 1.0 r = Some r' \<and>
           y (position (objects r' rs)) = legHeight (Robot prm) * 0.75 \<and>
           y (position (objects r' ls)) = legHeight (Robot prm) * 0.75 \<and>
           y (position (objects r' rf)) = legHeight (Robot prm) * 0.75 / 2 \<and>
           y (position (objects r' lf)) = legHeight (Robot prm) * 0.75 / 2 \<and>
           (robot.robotHeight (Robot prm) \<noteq> 0 \<longrightarrow>
              y (position (objects r' rs)) \<noteq> y (position (objects r rs)) \<and>
              y (position (objects r' ls)) \<noteq> y (position (objects r ls)) \<and>
              y (position (objects r' rf)) \<noteq> y (position (objects r rf)) \<and>
              y (position (objects r' lf)) \<noteq> y (position (objects r lf)))"
proof -
  from assms(1) have a: "assembled r" by (rule reachable_assembled)
  note same = run_legs_untouched [OF assembled_Robot assms(2) assms(1)]
  have lh: "legHeight (Robot prm) = robot.robotHeight (Robot prm) * 0.7619"
    by (simp only: Robot_scalars Robot_fields_dims)
  have one: "max 1 (min 1.2 (1.0::real)) = 1" by simp
  show ?thesis
    apply (rule exI [of _ "Suc 0"], rule exI [of _ 4], rule exI [of _ 2], rule exI [of _ 5])
    apply (rule exI [of _ "legs_written 1 (Suc 0) 4 2 5 r"])
    apply (simp add: Robot_slots setLegsScale_assembled [OF a assms(3)] one same
        legs_written_assembled_objects Robot_objects mesh_defs lh)
    done
qed

theorem first_setLegsScale_moves_legs_witness:
  "run [SetHeadRotation 10] (Robot no_parameters) \<noteq> None \<and>
   list_all (\<lambda>c. \<not> legs_call c) [SetHeadRotation 10] \<and>
   \<not> isDead (the (run [SetHeadRotation 10] (Robot no_parameters))) \<and>
   robot.robotHeight (Robot no_parameters) \<noteq> 0 \<and>
   (\<exists>rf lf rs ls r'.
      rightFemur (Robot no_parameters) = Some rf \<and> leftFemur (Robot no_parameters) = Some lf \<and>
      rightShoulder (Robot no_parameters) = Some rs \<and> leftShoulder (Robot no_parameters) = Some ls \<and>
      setLegsScale 1.0 (the (run [SetHeadRotation 10] (Robot no_parameters))) = Some r' \<and>
      y (position (objects r' rs))
        \<noteq> y (position (objects (the (run [SetHeadRotation 10] (Robot no_parameters))) rs)) \<and>
      y (position (objects r' ls))
        \<noteq> y (position (objects (the (run [SetHeadRotation 10] (Robot no_parameters))) ls)) \<and>
      y (position (objects r' rf))
        \<noteq> y (position (objects (the (run [SetHeadRotation 10] (Robot no_parameters))) rf)) \<and>
      y (position (objects r' lf))
        \<noteq> y (position (objects (the (run [SetHeadRotation 10] (Robot no_parameters))) lf)))"
proof -
  let ?r = "set_rotation_y 7 (degToRad (max (- 80) (min 80 10))) (Robot no_parameters)"
  have alive: "\<not> isDead (Robot no_parameters)"
    by (simp add: Robot_scalars Robot_fields_limits)
  have run: "run [SetHeadRotation 10] (Robot no_parameters) = Some ?r"
    by (simp add: setHeadRotation_assembled [OF assembled_Robot alive])
  have nl: "list_all (\<lambda>c. \<not> legs_call c) [SetHeadRotation 10]"
    by simp
  have live: "\<not> isDead ?r"
    using alive by (simp add: set_rotation_y_def modify_fields)
  have h: "robot.robotHeight (Robot no_parameters) \<noteq> 0"
    by (simp add: Robot_scalars Robot_fields_dims no_parameters_def)
  from first_setLegsScale_moves_legs [OF run nl live] h
  have "\<exists>rf lf rs ls r'.
      rightFemur (Robot no_parameters) = Some rf \<and> leftFemur (Robot no_parameters) = Some lf \<and>
      rightShoulder (Robot no_parameters) = Some rs \<and> leftShoulder (Robot no_parameters) = Some ls \<and>
      setLegsScale 1.0 ?r = Some r' \<and>
      y (position (objects r' rs)) \<noteq> y (position (objects ?r rs)) \<and>
      y (position (objects r' ls)) \<noteq> y (position (objects ?r ls)) \<and>
      y (position (objects r' rf)) \<noteq> y (position (objects ?r rf)) \<and>
      y (position (objects r' lf)) \<noteq> y (position (objects ?r lf))"
    by blast
  with run nl live h show ?thesis by simp
qed

end
